theory Spec2Isabelle
  imports Complex_Main "HOL-Library.AList" "HOL-Library.Sublist"
begin

section \<open>Python values, errors and indexing\<close>

text \<open>
  Exceptions are values: every function of the model that can raise returns
  \<open>py_error + 'a\<close>, with \<open>Inl\<close> for the exception. The payload of a
  \<open>ValidationError\<close> is the interpolated part of the message of
  \<^verbatim>\<open>validate_config\<close>: which template was used and the list or value that the
  f-string prints. \<open>ConfigError\<close> wraps it, as
  \<^verbatim>\<open>ConfigError(f"Invalid configuration: {e}")\<close> does.

  A value of a configuration is None, a number, a string or a reference to a
  dictionary. A number, integer or float, is \<open>VNum\<close> of the real number it denotes:
  Python compares the two kinds by value. A key of a dictionary is a string or an
  integer.
\<close>

datatype key = KStr string | KInt int

type_synonym addr = nat

datatype pyval = VNone | VNum real | VStr string | VDict addr

datatype vmsg =
    MissingSections "string list"
  | MissingTransmitterKeys "string list"
  | MissingP1812Keys "string list"
  | FrequencyOutsideRange pyval
  | TimePercentageOutsideRange pyval
  | PolarizationInvalid pyval

datatype py_error =
    IndexError
  | KeyError
  | TypeError
  | ImportError
  | ZeroDivisionError
  | ValueError
  | OverflowError
  | ValidationError vmsg
  | ConfigError vmsg

definition bnd :: "py_error + 'a \<Rightarrow> ('a \<Rightarrow> py_error + 'b) \<Rightarrow> py_error + 'b" where
  "bnd m f = (case m of Inl e \<Rightarrow> Inl e | Inr v \<Rightarrow> f v)"

text \<open>Python's \<^verbatim>\<open>xs[i]\<close> on a list: a negative index counts from the end, an
  index out of range raises IndexError.\<close>

definition py_index :: "'a list \<Rightarrow> int \<Rightarrow> py_error + 'a" where
  "py_index xs i =
     (if 0 \<le> i \<and> i < int (length xs) then Inr (xs ! nat i)
      else if i < 0 \<and> - int (length xs) \<le> i then Inr (xs ! nat (int (length xs) + i))
      else Inl IndexError)"

section \<open>Feature assembly (gis/geojson_builder.py)\<close>

text \<open>
  An entry of the positional parameter list of
  \<^verbatim>\<open>process_loss_parameters\<close> is a number or a sequence of numbers (the
  distance sequence at index 2). Floats are read as the real numbers they denote.
\<close>

datatype param = Num real | Seq "real list"

text \<open>
  Rounding of a float to the nearest integer, ties to the even one, on the exact value
  of the float. Python's \<^verbatim>\<open>round(x, n)\<close> and the format \<^verbatim>\<open>.1f\<close> round a float
  to decimals in this way.
\<close>

definition round_half_even :: "real \<Rightarrow> int" where
  "round_half_even x =
     (let f = \<lfloor>x\<rfloor>; r = x - of_int f
      in if r < 1 / 2 then f
         else if 1 / 2 < r then f + 1
         else if even f then f else f + 1)"

definition py_round :: "real \<Rightarrow> nat \<Rightarrow> real" where
  "py_round x ndigits = of_int (round_half_even (x * 10 ^ ndigits)) / 10 ^ ndigits"

text \<open>\<^verbatim>\<open>p[i]\<close> on an entry: a sequence is indexed, a number is not subscriptable.\<close>

definition subscript :: "param \<Rightarrow> int \<Rightarrow> py_error + real" where
  "subscript p i = (case p of Seq ds \<Rightarrow> py_index ds i | Num _ \<Rightarrow> Inl TypeError)"

datatype propval = PStr string | PInt int | PVal param

datatype geom =
    Point "param list"
  | LineString "param list list"
  | Polygon "param list list list"

record feature =
  geometry :: geom
  properties :: "(string \<times> propval) list"

datatype feature_collection = FeatureCollection "feature list"

text \<open>
  The geometry classes of the geojson library (setup.py asks for version 2.5.0 or
  later) do not keep the coordinates they are given. Their constructor stores
  \<^verbatim>\<open>clean_coordinates(coordinates or [], precision)\<close> with the default precision 6: a
  new list, in which every number is \<^verbatim>\<open>round(x, 6)\<close> and every nested list or tuple
  is cleaned in the same way. An entry of a coordinate that is a sequence is read as a
  Python list.
\<close>

fun clean_param :: "param \<Rightarrow> param" where
  "clean_param (Num x) = Num (py_round x 6)"
| "clean_param (Seq xs) = Seq (map (\<lambda>x. py_round x 6) xs)"

definition clean_coordinates :: "param list \<Rightarrow> param list" where
  "clean_coordinates coords = map clean_param coords"

definition geojson_Point :: "param list \<Rightarrow> geom" where
  "geojson_Point coordinates = Point (clean_coordinates coordinates)"

definition geojson_LineString :: "param list list \<Rightarrow> geom" where
  "geojson_LineString coordinates = LineString (map clean_coordinates coordinates)"

definition geojson_Polygon :: "param list list list \<Rightarrow> geom" where
  "geojson_Polygon coordinates = Polygon (map (map clean_coordinates) coordinates)"

text \<open>\<^verbatim>\<open>str(n)\<close> of a non-negative integer, as the f-strings print it.\<close>

definition digit_char :: "nat \<Rightarrow> char" where
  "digit_char d = ''0123456789'' ! d"

function str_nat :: "nat \<Rightarrow> string" where
  "str_nat n = (if n < 10 then [digit_char n] else str_nat (n div 10) @ [digit_char (n mod 10)])"
  by pat_completeness auto
termination
  by (relation "measure id") auto

declare str_nat.simps [simp del]

text \<open>
  A Python function can change a list that it is passed. Each of the four functions
  therefore returns its result together with the contents of its list argument after
  the call; the other arguments (\<open>number\<close>, \<open>index\<close>, \<open>Lb\<close>, \<open>Ep\<close>) are numbers, which
  no call can change. The first three functions contain no statement that assigns to
  \<^verbatim>\<open>parameters\<close> or calls a method of it.
\<close>

definition generate_geojson_point_transmitter ::
  "param list \<Rightarrow> py_error + (feature \<times> param list)" where
  "generate_geojson_point_transmitter parameters =
     bnd (py_index parameters 12) (\<lambda>tx_lon.
     bnd (py_index parameters 10) (\<lambda>tx_lat.
     bnd (py_index parameters 0) (\<lambda>frequency.
     bnd (py_index parameters 7) (\<lambda>htg.
     bnd (py_index parameters 9) (\<lambda>polarization.
     Inr (\<lparr>geometry = geojson_Point [tx_lon, tx_lat],
           properties =
             [(''name'', PStr ''Transmitter''),
              (''frequency'', PVal frequency),
              (''htg'', PVal htg),
              (''polarization'', PVal polarization),
              (''lon'', PVal tx_lon),
              (''lat'', PVal tx_lat)]\<rparr>,
          parameters))))))"

definition generate_geojson_point_receiver ::
  "param list \<Rightarrow> nat \<Rightarrow> real \<Rightarrow> real \<Rightarrow> py_error + (feature \<times> param list)" where
  "generate_geojson_point_receiver parameters number Lb Ep =
     bnd (py_index parameters 13) (\<lambda>rx_lon.
     bnd (py_index parameters 11) (\<lambda>rx_lat.
     bnd (py_index parameters 8) (\<lambda>hrg.
     bnd (py_index parameters 2) (\<lambda>d.
     bnd (subscript d (- 1)) (\<lambda>distance.
     Inr (\<lparr>geometry = geojson_Point [rx_lon, rx_lat],
           properties =
             [(''name'', PStr (''Receiver_'' @ str_nat number)),
              (''Lb'', PVal (Num Lb)),
              (''Ep'', PVal (Num Ep)),
              (''hrg'', PVal hrg),
              (''distance'', PVal (Num distance)),
              (''lon'', PVal rx_lon),
              (''lat'', PVal rx_lat)]\<rparr>,
          parameters))))))"

definition generate_geojson_line ::
  "param list \<Rightarrow> nat \<Rightarrow> real \<Rightarrow> real \<Rightarrow> py_error + (feature \<times> param list)" where
  "generate_geojson_line parameters index Lb Ep =
     bnd (py_index parameters 12) (\<lambda>tx_lon.
     bnd (py_index parameters 10) (\<lambda>tx_lat.
     bnd (py_index parameters 13) (\<lambda>rx_lon.
     bnd (py_index parameters 11) (\<lambda>rx_lat.
     bnd (py_index parameters 2) (\<lambda>d.
     bnd (subscript d (- 1)) (\<lambda>distance_km.
     Inr (\<lparr>geometry = geojson_LineString [[tx_lon, tx_lat], [rx_lon, rx_lat]],
           properties =
             [(''name'', PStr (''Link_'' @ str_nat (index + 1))),
              (''rx_id'', PInt (int (index + 1))),
              (''tx_lon'', PVal tx_lon),
              (''tx_lat'', PVal tx_lat),
              (''rx_lon'', PVal rx_lon),
              (''rx_lat'', PVal rx_lat),
              (''distance_km'', PVal (Num distance_km)),
              (''Lb'', PVal (Num Lb)),
              (''Ep'', PVal (Num Ep))]\<rparr>,
          parameters)))))))"

text \<open>
  \<^verbatim>\<open>generate_geojson_polygon\<close> appends to the list object it is given; the second
  component of its result is the contents of that list after the call, which the
  polygon constructor then copies and rounds. \<open>ring_is_open\<close> is the guard
  \<^verbatim>\<open>polygon_coords and polygon_coords[0] != polygon_coords[-1]\<close>, which indexes
  only a non-empty list.
\<close>

definition ring_is_open :: "param list list \<Rightarrow> py_error + bool" where
  "ring_is_open polygon_coords =
     (if polygon_coords = [] then Inr False
      else bnd (py_index polygon_coords 0) (\<lambda>first.
           bnd (py_index polygon_coords (- 1)) (\<lambda>final.
           Inr (first \<noteq> final))))"

definition generate_geojson_polygon ::
  "param list list \<Rightarrow> py_error + (feature_collection \<times> param list list)" where
  "generate_geojson_polygon polygon_coords =
     bnd (ring_is_open polygon_coords) (\<lambda>is_open.
     bnd (if is_open
          then bnd (py_index polygon_coords 0) (\<lambda>first. Inr (polygon_coords @ [first]))
          else Inr polygon_coords) (\<lambda>coords.
     Inr (FeatureCollection
            [\<lparr>geometry = (if coords \<noteq> [] then geojson_Polygon [coords]
                           else geojson_Polygon [[]]),
              properties = [(''name'', PStr ''Coverage area'')]\<rparr>],
          coords)))"

section \<open>Batch orchestration (propagation/batch_processor.py)\<close>

text \<open>
  The three lists that \<^verbatim>\<open>main\<close> fills while it walks the profiles.
\<close>

record batch_state =
  points :: "feature list"
  lines :: "feature list"
  polygon_coords :: "param list list"

definition empty_batch :: batch_state where
  "empty_batch = \<lparr>points = [], lines = [], polygon_coords = []\<rparr>"

text \<open>
  The body of \<^verbatim>\<open>for index, profile in enumerate(profiles)\<close>. The two
  collaborators that are not code of this repository are parameters:
  \<open>process_loss_parameters\<close> (profile to parameter list) and \<open>bt_loss\<close>
  (\<^verbatim>\<open>Py1812.P1812.bt_loss\<close>, parameter list to \<open>(Lb, Ep)\<close>). Either may
  raise. The parameter list is handed from each call of a feature function to the next
  statement as that call leaves it. The console output of the loop is not modelled.
\<close>

definition loop_body ::
  "('p \<Rightarrow> py_error + param list) \<Rightarrow> (param list \<Rightarrow> py_error + real \<times> real) \<Rightarrow>
   nat \<Rightarrow> 'p \<Rightarrow> batch_state \<Rightarrow> py_error + batch_state" where
  "loop_body process_loss_parameters bt_loss index profile st =
     bnd (process_loss_parameters profile) (\<lambda>parameters.
     bnd (bt_loss parameters) (\<lambda>(Lb, Ep).
     bnd (if index = 0
          then bnd (generate_geojson_point_transmitter parameters)
                 (\<lambda>(tx, parameters). Inr (st\<lparr>points := points st @ [tx]\<rparr>, parameters))
          else Inr (st, parameters)) (\<lambda>(st1, parameters).
     bnd (generate_geojson_point_receiver parameters (index + 1) Lb Ep) (\<lambda>(rx, parameters).
     bnd (generate_geojson_line parameters index Lb Ep) (\<lambda>(link, parameters).
     bnd (py_index parameters 13) (\<lambda>rx_lon.
     bnd (py_index parameters 11) (\<lambda>rx_lat.
     Inr (st1\<lparr>points := points st1 @ [rx],
              lines := lines st1 @ [link],
              polygon_coords := polygon_coords st1 @ [[rx_lon, rx_lat]]\<rparr>))))))))"

fun process_profiles ::
  "('p \<Rightarrow> py_error + param list) \<Rightarrow> (param list \<Rightarrow> py_error + real \<times> real) \<Rightarrow>
   nat \<Rightarrow> 'p list \<Rightarrow> batch_state \<Rightarrow> py_error + batch_state" where
  "process_profiles process_loss_parameters bt_loss index [] st = Inr st"
| "process_profiles process_loss_parameters bt_loss index (profile # rest) st =
     bnd (loop_body process_loss_parameters bt_loss index profile st)
       (process_profiles process_loss_parameters bt_loss (index + 1) rest)"

text \<open>
  The second loop of \<^verbatim>\<open>main\<close>, which derives every parameter list again:
  \<^verbatim>\<open>max_d_km = max(max_d_km, float(p[2][-1]))\<close>, started at \<open>0.0\<close>.
\<close>

fun max_distance ::
  "('p \<Rightarrow> py_error + param list) \<Rightarrow> 'p list \<Rightarrow> real \<Rightarrow> py_error + real" where
  "max_distance process_loss_parameters [] max_d_km = Inr max_d_km"
| "max_distance process_loss_parameters (profile # rest) max_d_km =
     bnd (process_loss_parameters profile) (\<lambda>p.
     bnd (py_index p 2) (\<lambda>d.
     bnd (subscript d (- 1)) (\<lambda>final.
     max_distance process_loss_parameters rest (max max_d_km final))))"

text \<open>
  \<^verbatim>\<open>f"{x:.1f}"\<close>: the decimal expansion of the float's exact value, correctly
  rounded to one place, ties to the even digit.
\<close>

definition format_1f :: "real \<Rightarrow> string" where
  "format_1f x =
     (let t = nat (round_half_even (\<bar>x\<bar> * 10))
      in (if x < 0 then ''-'' else []) @ str_nat (t div 10) @ ''.'' @ [digit_char (t mod 10)])"

text \<open>\<^verbatim>\<open>s.replace(".", "p")\<close>, a replacement of one character by one character.\<close>

definition replace_dot_p :: "string \<Rightarrow> string" where
  "replace_dot_p s = map (\<lambda>c. if c = CHR ''.'' then CHR ''p'' else c) s"

definition d_tag_of :: "real \<Rightarrow> string" where
  "d_tag_of max_d_km = replace_dot_p (format_1f max_d_km) @ ''km''"

text \<open>
  The clock is an input of the run: \<open>struct_time\<close> is the local time that
  \<^verbatim>\<open>time.strftime("%Y%m%d_%H%M%S")\<close> formats. \<^verbatim>\<open>%Y\<close> prints the year as it
  is, the other five fields are padded with a zero to two digits.
\<close>

record struct_time =
  tm_year :: nat
  tm_mon :: nat
  tm_mday :: nat
  tm_hour :: nat
  tm_min :: nat
  tm_sec :: nat

definition pad2 :: "nat \<Rightarrow> string" where
  "pad2 n = (if n < 10 then CHR ''0'' # str_nat n else str_nat n)"

definition strftime_Ymd_HMS :: "struct_time \<Rightarrow> string" where
  "strftime_Ymd_HMS t =
     str_nat (tm_year t) @ pad2 (tm_mon t) @ pad2 (tm_mday t) @ ''_'' @
     pad2 (tm_hour t) @ pad2 (tm_min t) @ pad2 (tm_sec t)"

record batch_output =
  points_path :: string
  lines_path :: string
  polygon_path :: string
  points_fc :: feature_collection
  lines_fc :: feature_collection
  polygon_fc :: feature_collection

text \<open>
  \<^verbatim>\<open>main\<close>, from the loaded profiles to the three file names (inside the output
  directory) and the three collections written under them. \<open>P1812\<close> is \<open>None\<close>
  when the import of Py1812 fails.
\<close>

definition main ::
  "('p \<Rightarrow> py_error + param list) \<Rightarrow> (param list \<Rightarrow> py_error + real \<times> real) option \<Rightarrow>
   struct_time \<Rightarrow> 'p list \<Rightarrow> py_error + batch_output" where
  "main process_loss_parameters P1812 now profiles =
     (case P1812 of
        None \<Rightarrow> Inl ImportError
      | Some bt_loss \<Rightarrow>
          bnd (process_profiles process_loss_parameters bt_loss 0 profiles empty_batch) (\<lambda>st.
          bnd (generate_geojson_polygon (polygon_coords st)) (\<lambda>(polygon, _).
          let ts = strftime_Ymd_HMS now in
          bnd (max_distance process_loss_parameters profiles 0) (\<lambda>max_d_km.
          let d_tag = d_tag_of max_d_km in
          Inr \<lparr>points_path = ''points_'' @ d_tag @ ''_'' @ ts @ ''.geojson'',
               lines_path = ''lines_'' @ d_tag @ ''_'' @ ts @ ''.geojson'',
               polygon_path = ''polygon_'' @ d_tag @ ''_'' @ ts @ ''.geojson'',
               points_fc = FeatureCollection (points st),
               lines_fc = FeatureCollection (lines st),
               polygon_fc = polygon\<rparr>))))"

section \<open>Configuration store (pipeline/config.py, utils/validation.py)\<close>

text \<open>
  A dictionary is an association list in insertion order; \<open>map_of\<close> reads it and
  \<open>AList.update\<close> is \<^verbatim>\<open>d[k] = v\<close>. Dictionaries are objects: a value
  \<open>VDict a\<close> is a reference to the dictionary stored at address \<open>a\<close> of the heap,
  so that two dictionaries holding the same reference share the nested dictionary, as
  the sections of \<^verbatim>\<open>DEFAULT_CONFIG.copy()\<close> are shared with
  \<^verbatim>\<open>DEFAULT_CONFIG\<close>. \<open>fresh\<close> is the next unused address.
\<close>

type_synonym dict = "(key \<times> pyval) list"

record heap =
  objs :: "addr \<Rightarrow> dict"
  fresh :: addr

definition alloc :: "heap \<Rightarrow> dict \<Rightarrow> addr \<times> heap" where
  "alloc h d = (fresh h, h\<lparr>objs := (objs h)(fresh h := d), fresh := Suc (fresh h)\<rparr>)"

text \<open>\<^verbatim>\<open>k in c\<close>: membership in a dictionary, substring test on a string, TypeError
  on a value that is no container.\<close>

definition py_contains :: "heap \<Rightarrow> pyval \<Rightarrow> key \<Rightarrow> py_error + bool" where
  "py_contains h c k =
     (case c of
        VDict a \<Rightarrow> Inr (map_of (objs h a) k \<noteq> None)
      | VStr s \<Rightarrow> (case k of KStr t \<Rightarrow> Inr (sublist t s) | KInt _ \<Rightarrow> Inl TypeError)
      | _ \<Rightarrow> Inl TypeError)"

text \<open>\<^verbatim>\<open>c[k]\<close>: KeyError for a key the dictionary lacks, a string takes integer
  indices only.\<close>

definition py_getitem :: "heap \<Rightarrow> pyval \<Rightarrow> key \<Rightarrow> py_error + pyval" where
  "py_getitem h c k =
     (case c of
        VDict a \<Rightarrow> (case map_of (objs h a) k of None \<Rightarrow> Inl KeyError | Some v \<Rightarrow> Inr v)
      | VStr s \<Rightarrow>
          (case k of
             KInt i \<Rightarrow> bnd (py_index s i) (\<lambda>ch. Inr (VStr [ch]))
           | KStr _ \<Rightarrow> Inl TypeError)
      | _ \<Rightarrow> Inl TypeError)"

text \<open>\<^verbatim>\<open>c[k] = v\<close>: only a dictionary supports item assignment.\<close>

definition py_setitem :: "heap \<Rightarrow> pyval \<Rightarrow> key \<Rightarrow> pyval \<Rightarrow> (py_error + unit) \<times> heap" where
  "py_setitem h c k v =
     (case c of
        VDict a \<Rightarrow> (Inr (), h\<lparr>objs := (objs h)(a := AList.update k v (objs h a))\<rparr>)
      | _ \<Rightarrow> (Inl TypeError, h))"

text \<open>\<^verbatim>\<open>lo <= v <= hi\<close> with numeric literals \<open>lo\<close>, \<open>hi\<close>: the chain stops at
  the first false comparison; comparing a number with a string, None or a dictionary
  raises TypeError.\<close>

definition num_le_val :: "real \<Rightarrow> pyval \<Rightarrow> py_error + bool" where
  "num_le_val lo v = (case v of VNum x \<Rightarrow> Inr (lo \<le> x) | _ \<Rightarrow> Inl TypeError)"

definition val_le_num :: "pyval \<Rightarrow> real \<Rightarrow> py_error + bool" where
  "val_le_num v hi = (case v of VNum x \<Rightarrow> Inr (x \<le> hi) | _ \<Rightarrow> Inl TypeError)"

definition chained_le :: "real \<Rightarrow> pyval \<Rightarrow> real \<Rightarrow> py_error + bool" where
  "chained_le lo v hi = bnd (num_le_val lo v) (\<lambda>b. if b then val_le_num v hi else Inr False)"

subsection \<open>validate_config\<close>

definition required_sections :: "string list" where
  "required_sections = [''TRANSMITTER'', ''P1812'', ''RECEIVER_GENERATION'', ''LCM10_TO_CT'', ''CT_TO_R'']"

definition required_tx_keys :: "string list" where
  "required_tx_keys = [''latitude'', ''longitude'', ''antenna_height_tx'', ''antenna_height_rx'']"

definition required_p1812 :: "string list" where
  "required_p1812 = [''frequency_ghz'', ''time_percentage'', ''polarization'']"

text \<open>The comprehension \<^verbatim>\<open>[key for key in keys if key not in c]\<close>.\<close>

fun missing_keys :: "heap \<Rightarrow> pyval \<Rightarrow> string list \<Rightarrow> py_error + string list" where
  "missing_keys h c [] = Inr []"
| "missing_keys h c (k # ks) =
     bnd (py_contains h c (KStr k)) (\<lambda>present.
     bnd (missing_keys h c ks) (\<lambda>rest.
     Inr (if present then rest else k # rest)))"

definition validate_config :: "heap \<Rightarrow> dict \<Rightarrow> py_error + unit" where
  "validate_config h config =
     (let missing = filter (\<lambda>sec. map_of config (KStr sec) = None) required_sections in
      if missing \<noteq> [] then Inl (ValidationError (MissingSections missing))
      else
        bnd (case map_of config (KStr ''TRANSMITTER'') of None \<Rightarrow> Inl KeyError | Some v \<Rightarrow> Inr v) (\<lambda>tx.
        bnd (missing_keys h tx required_tx_keys) (\<lambda>missing_tx.
        if missing_tx \<noteq> [] then Inl (ValidationError (MissingTransmitterKeys missing_tx))
        else
          bnd (case map_of config (KStr ''P1812'') of None \<Rightarrow> Inl KeyError | Some v \<Rightarrow> Inr v) (\<lambda>p1812.
          bnd (missing_keys h p1812 required_p1812) (\<lambda>missing_p1812.
          if missing_p1812 \<noteq> [] then Inl (ValidationError (MissingP1812Keys missing_p1812))
          else
            bnd (py_getitem h p1812 (KStr ''frequency_ghz'')) (\<lambda>frequency_ghz.
            bnd (chained_le (3 / 100) frequency_ghz 6) (\<lambda>ok.
            if \<not> ok then Inl (ValidationError (FrequencyOutsideRange frequency_ghz))
            else
              bnd (py_getitem h p1812 (KStr ''time_percentage'')) (\<lambda>time_percentage.
              bnd (chained_le 1 time_percentage 50) (\<lambda>ok.
              if \<not> ok then Inl (ValidationError (TimePercentageOutsideRange time_percentage))
              else
                bnd (py_getitem h p1812 (KStr ''polarization'')) (\<lambda>polarization.
                if polarization \<notin> set [VNum 1, VNum 2]
                then Inl (ValidationError (PolarizationInvalid polarization))
                else Inr ()))))))))))"

subsection \<open>ConfigManager\<close>

text \<open>
  The module-level \<^verbatim>\<open>DEFAULT_CONFIG\<close> is the dictionary at address
  \<open>DEFAULT_CONFIG\<close>; \<open>module_heap\<close> is the heap after the module is loaded, with
  the six section dictionaries at addresses 0 to 5.
\<close>

definition DEFAULT_CONFIG :: addr where
  "DEFAULT_CONFIG = 6"

definition module_heap :: heap where
  "module_heap =
     \<lparr>objs = (\<lambda>_. [])
        (0 := [(KStr ''tx_id'', VStr ''TX_0001''),
               (KStr ''longitude'', VNum (- 13.40694)),
               (KStr ''latitude'', VNum 9.345),
               (KStr ''antenna_height_tx'', VNum 57),
               (KStr ''antenna_height_rx'', VNum 10)],
         1 := [(KStr ''frequency_ghz'', VNum 0.9),
               (KStr ''time_percentage'', VNum 50),
               (KStr ''polarization'', VNum 1)],
         2 := [(KStr ''max_distance_km'', VNum 11),
               (KStr ''azimuth_step'', VNum 10),
               (KStr ''distance_step'', VNum 0.03),
               (KStr ''sampling_resolution'', VNum 30)],
         3 := [(KStr ''buffer_m'', VNum 11000),
               (KStr ''chip_px'', VNum 734),
               (KStr ''year'', VNum 2020)],
         4 := [(KInt 100, VNum 1), (KInt 80, VNum 2), (KInt 30, VNum 2), (KInt 40, VNum 2),
               (KInt 70, VNum 2), (KInt 110, VNum 2), (KInt 254, VNum 2),
               (KInt 20, VNum 3), (KInt 50, VNum 3),
               (KInt 10, VNum 4), (KInt 60, VNum 4), (KInt 90, VNum 4)],
         5 := [(KInt 1, VNum 0), (KInt 2, VNum 0), (KInt 3, VNum 10), (KInt 4, VNum 15),
               (KInt 5, VNum 20)],
         6 := [(KStr ''TRANSMITTER'', VDict 0),
               (KStr ''P1812'', VDict 1),
               (KStr ''RECEIVER_GENERATION'', VDict 2),
               (KStr ''SENTINEL_HUB'', VDict 3),
               (KStr ''LCM10_TO_CT'', VDict 4),
               (KStr ''CT_TO_R'', VDict 5)]),
      fresh = 7\<rparr>"

text \<open>
  An override passed to the constructor is a literal tree (as \<^verbatim>\<open>json.load\<close>
  returns it). When \<^verbatim>\<open>_deep_update\<close> stores a nested dictionary of the override
  with \<^verbatim>\<open>target[key] = value\<close>, the model allocates it in the heap.
\<close>

datatype oval = ONone | ONum real | OStr string | ODict "(key \<times> oval) list"

fun store_oval :: "heap \<Rightarrow> oval \<Rightarrow> pyval \<times> heap"
  and store_items :: "heap \<Rightarrow> dict \<Rightarrow> (key \<times> oval) list \<Rightarrow> dict \<times> heap" where
  "store_oval h ONone = (VNone, h)"
| "store_oval h (ONum x) = (VNum x, h)"
| "store_oval h (OStr s) = (VStr s, h)"
| "store_oval h (ODict items) =
     (let (d, h1) = store_items h [] items; (a, h2) = alloc h1 d in (VDict a, h2))"
| "store_items h acc [] = (acc, h)"
| "store_items h acc ((k, v) # rest) =
     (let (pv, h1) = store_oval h v in store_items h1 (AList.update k pv acc) rest)"

text \<open>Statements of a method run in sequence on the heap; an exception ends the
  sequence and keeps the heap as it is at that point.\<close>

definition bnd_h ::
  "(py_error + 'a) \<times> heap \<Rightarrow> ('a \<Rightarrow> heap \<Rightarrow> (py_error + 'b) \<times> heap) \<Rightarrow> (py_error + 'b) \<times> heap" where
  "bnd_h m f = (case m of (Inl e, h) \<Rightarrow> (Inl e, h) | (Inr v, h) \<Rightarrow> f v h)"

text \<open>
  \<^verbatim>\<open>_deep_update(target, source)\<close>, by recursion on the items of \<open>source\<close>:
  a dictionary value whose key is in \<open>target\<close> is merged into \<open>target[key]\<close>, any
  other value is assigned.
\<close>

fun deep_update :: "heap \<Rightarrow> pyval \<Rightarrow> (key \<times> oval) list \<Rightarrow> (py_error + unit) \<times> heap" where
  "deep_update h target [] = (Inr (), h)"
| "deep_update h target ((key, ODict items) # rest) =
     (case py_contains h target key of
        Inl e \<Rightarrow> (Inl e, h)
      | Inr True \<Rightarrow>
          (case py_getitem h target key of
             Inl e \<Rightarrow> (Inl e, h)
           | Inr sub \<Rightarrow>
               bnd_h (deep_update h sub items) (\<lambda>_ h1. deep_update h1 target rest))
      | Inr False \<Rightarrow>
          (let (pv, h1) = store_oval h (ODict items)
           in bnd_h (py_setitem h1 target key pv) (\<lambda>_ h2. deep_update h2 target rest)))"
| "deep_update h target ((key, value) # rest) =
     (let (pv, h1) = store_oval h value
      in bnd_h (py_setitem h1 target key pv) (\<lambda>_ h2. deep_update h2 target rest))"

text \<open>\<^verbatim>\<open>ConfigManager.validate\<close>: a ValidationError becomes a ConfigError, any other
  exception passes through.\<close>

definition validate_cm :: "heap \<Rightarrow> addr \<Rightarrow> py_error + unit" where
  "validate_cm h self =
     (case validate_config h (objs h self) of
        Inl (ValidationError e) \<Rightarrow> Inl (ConfigError e)
      | r \<Rightarrow> r)"

text \<open>
  \<^verbatim>\<open>ConfigManager.__init__\<close>. A manager is the address of its \<^verbatim>\<open>self.config\<close>
  dictionary, the shallow copy of \<^verbatim>\<open>DEFAULT_CONFIG\<close>. The heap is returned also
  when the constructor raises.
\<close>

definition init_cm :: "heap \<Rightarrow> (key \<times> oval) list option \<Rightarrow> (py_error + addr) \<times> heap" where
  "init_cm h config =
     (let (self, h1) = alloc h (objs h DEFAULT_CONFIG)
      in bnd_h (case config of
                  None \<Rightarrow> (Inr (), h1)
                | Some source \<Rightarrow>
                    if source \<noteq> [] then deep_update h1 (VDict self) source else (Inr (), h1))
           (\<lambda>_ h2. case validate_cm h2 self of Inl e \<Rightarrow> (Inl e, h2) | Inr _ \<Rightarrow> (Inr self, h2)))"

text \<open>\<^verbatim>\<open>ConfigManager.get(section, key=None, default=None)\<close>.\<close>

definition get_cm :: "heap \<Rightarrow> addr \<Rightarrow> string \<Rightarrow> string option \<Rightarrow> pyval \<Rightarrow> pyval" where
  "get_cm h self section key dflt =
     (case key of
        None \<Rightarrow> (case map_of (objs h self) (KStr section) of None \<Rightarrow> dflt | Some v \<Rightarrow> v)
      | Some k \<Rightarrow>
          (case map_of (objs h self) (KStr section) of
             None \<Rightarrow> dflt
           | Some (VDict a) \<Rightarrow>
               (case map_of (objs h a) (KStr k) of None \<Rightarrow> dflt | Some v \<Rightarrow> v)
           | Some _ \<Rightarrow> dflt))"

text \<open>\<^verbatim>\<open>ConfigManager.set(section, key, value)\<close>: create the section if it is
  absent, assign, then validate the whole tree.\<close>

definition set_cm ::
  "heap \<Rightarrow> addr \<Rightarrow> string \<Rightarrow> string \<Rightarrow> pyval \<Rightarrow> (py_error + unit) \<times> heap" where
  "set_cm h self section key value =
     bnd_h (if map_of (objs h self) (KStr section) = None
            then (let (a, h1) = alloc h [] in py_setitem h1 (VDict self) (KStr section) (VDict a))
            else (Inr (), h))
       (\<lambda>_ h2. case py_getitem h2 (VDict self) (KStr section) of
                  Inl e \<Rightarrow> (Inl e, h2)
                | Inr sec \<Rightarrow>
                    bnd_h (py_setitem h2 sec (KStr key) value)
                      (\<lambda>_ h3. (validate_cm h3 self, h3)))"

section \<open>Receiver point generation (propagation/point_generator.py)\<close>

text \<open>
  A Python float is a finite number, read as the real number it denotes, an infinity or
  NaN. Arithmetic on finite numbers is exact: rounding, the overflow of a float
  operation and the sign of zero are not modelled. What Python raises is kept:
  \<^verbatim>\<open>a / b\<close> raises ZeroDivisionError for a zero divisor, \<^verbatim>\<open>math.sqrt\<close> raises
  ValueError on a negative argument, \<^verbatim>\<open>math.cos\<close> and \<^verbatim>\<open>math.sin\<close> on an infinite
  one, and an integer operand of a float operation is converted to a float, which
  raises OverflowError when the integer rounds to no finite double.
\<close>

datatype pyfloat = Fin real | PInf | NInf | NaN

fun fmul :: "pyfloat \<Rightarrow> pyfloat \<Rightarrow> pyfloat" where
  "fmul NaN b = NaN"
| "fmul a NaN = NaN"
| "fmul (Fin a) (Fin b) = Fin (a * b)"
| "fmul (Fin a) PInf = (if a = 0 then NaN else if 0 < a then PInf else NInf)"
| "fmul (Fin a) NInf = (if a = 0 then NaN else if 0 < a then NInf else PInf)"
| "fmul PInf (Fin b) = (if b = 0 then NaN else if 0 < b then PInf else NInf)"
| "fmul NInf (Fin b) = (if b = 0 then NaN else if 0 < b then NInf else PInf)"
| "fmul PInf PInf = PInf"
| "fmul PInf NInf = NInf"
| "fmul NInf PInf = NInf"
| "fmul NInf NInf = PInf"

fun fadd :: "pyfloat \<Rightarrow> pyfloat \<Rightarrow> pyfloat" where
  "fadd NaN b = NaN"
| "fadd a NaN = NaN"
| "fadd (Fin a) (Fin b) = Fin (a + b)"
| "fadd (Fin a) PInf = PInf"
| "fadd (Fin a) NInf = NInf"
| "fadd PInf (Fin b) = PInf"
| "fadd NInf (Fin b) = NInf"
| "fadd PInf PInf = PInf"
| "fadd PInf NInf = NaN"
| "fadd NInf PInf = NaN"
| "fadd NInf NInf = NInf"

text \<open>The quotient of two floats for a divisor that is not zero, and \<^verbatim>\<open>a / b\<close>.\<close>

fun fquot :: "pyfloat \<Rightarrow> pyfloat \<Rightarrow> pyfloat" where
  "fquot a (Fin b) =
     (case a of
        Fin x \<Rightarrow> Fin (x / b)
      | PInf \<Rightarrow> if 0 < b then PInf else NInf
      | NInf \<Rightarrow> if 0 < b then NInf else PInf
      | NaN \<Rightarrow> NaN)"
| "fquot a NaN = NaN"
| "fquot (Fin x) PInf = Fin 0"
| "fquot (Fin x) NInf = Fin 0"
| "fquot a b = NaN"

definition fdiv :: "pyfloat \<Rightarrow> pyfloat \<Rightarrow> py_error + pyfloat" where
  "fdiv a b = (if b = Fin 0 then Inl ZeroDivisionError else Inr (fquot a b))"

text \<open>
  The conversion of an integer to a float. The largest double is \<open>2 ^ 1024 - 2 ^ 971\<close>;
  an integer of magnitude \<open>2 ^ 1024 - 2 ^ 970\<close> or more rounds (ties to even) to
  \<open>2 ^ 1024\<close>, and the conversion raises OverflowError.
\<close>

definition int_float_limit :: int where
  "int_float_limit = 2 ^ 1024 - 2 ^ 970"

definition float_of_int :: "int \<Rightarrow> py_error + real" where
  "float_of_int k = (if \<bar>k\<bar> < int_float_limit then Inr (of_int k) else Inl OverflowError)"

text \<open>
  The float cosine \<^verbatim>\<open>math.cos\<close> is a parameter of the model. One fact about its values
  is kept, because an exception depends on it: the result for a finite float is never
  zero. A double is a rational number, so none is an odd multiple of \<open>pi / 2\<close>, and the
  double nearest to its cosine is not \<open>0.0\<close>; \<^verbatim>\<open>math.cos(math.radians(90.0))\<close> is
  \<open>6.1e-17\<close>. The type \<open>cosine\<close> is the type of the functions without a zero, and
  \<open>cos_of c x\<close> is the value of \<^verbatim>\<open>math.cos\<close> at the finite float \<open>x\<close>.
\<close>

typedef cosine = "{f :: real \<Rightarrow> real. \<forall>x. f x \<noteq> 0}"
  morphisms cos_of Abs_cosine
  by (rule exI [of _ "\<lambda>_. 1"]) simp

setup_lifting type_definition_cosine

definition math_cos :: "cosine \<Rightarrow> pyfloat \<Rightarrow> py_error + pyfloat" where
  "math_cos c a =
     (case a of Fin x \<Rightarrow> Inr (Fin (cos_of c x)) | NaN \<Rightarrow> Inr NaN | _ \<Rightarrow> Inl ValueError)"

definition math_sin :: "pyfloat \<Rightarrow> py_error + pyfloat" where
  "math_sin a =
     (case a of Fin x \<Rightarrow> Inr (Fin (sin x)) | NaN \<Rightarrow> Inr NaN | _ \<Rightarrow> Inl ValueError)"

definition math_radians :: "pyfloat \<Rightarrow> pyfloat" where
  "math_radians a = fmul a (Fin (pi / 180))"

definition py_div :: "real \<Rightarrow> real \<Rightarrow> py_error + real" where
  "py_div a b = (if b = 0 then Inl ZeroDivisionError else Inr (a / b))"

definition math_sqrt :: "real \<Rightarrow> py_error + real" where
  "math_sqrt x = (if x < 0 then Inl ValueError else Inr (sqrt x))"

definition golden_angle :: real where
  "golden_angle = 2 * pi * (1 - 1 / sqrt 5)"

text \<open>
  The body of \<^verbatim>\<open>for i in range(num_points)\<close>, which appends one point. The integers
  \<open>i\<close> and \<open>num_points\<close> are operands of float operations and are converted; the angle
  and the argument of the square root are computed from them and are finite.
\<close>

definition phyllotaxis_point ::
  "cosine \<Rightarrow> pyfloat \<Rightarrow> pyfloat \<Rightarrow> int \<Rightarrow> pyfloat \<Rightarrow> nat \<Rightarrow>
   py_error + pyfloat \<times> pyfloat" where
  "phyllotaxis_point c lat0 lon0 num_points scale i =
     bnd (float_of_int (int i)) (\<lambda>fi.
     let angle = fi * golden_angle in
     bnd (float_of_int num_points) (\<lambda>fn.
     bnd (py_div (fi + 1 / 2) fn) (\<lambda>q.
     bnd (math_sqrt q) (\<lambda>s.
     let radius = fmul scale (Fin s) in
     bnd (math_cos c (Fin angle)) (\<lambda>cos_angle.
     let x = fmul radius cos_angle in
     bnd (math_sin (Fin angle)) (\<lambda>sin_angle.
     let y = fmul radius sin_angle in
     bnd (fdiv y (Fin 111320)) (\<lambda>delta_lat.
     bnd (math_cos c (math_radians lat0)) (\<lambda>cos_lat.
     bnd (fdiv x (fmul (Fin 111320) cos_lat)) (\<lambda>delta_lon.
     Inr (fadd lat0 delta_lat, fadd lon0 delta_lon))))))))))"

fun phyllotaxis_loop ::
  "cosine \<Rightarrow> pyfloat \<Rightarrow> pyfloat \<Rightarrow> int \<Rightarrow> pyfloat \<Rightarrow> nat list \<Rightarrow> (pyfloat \<times> pyfloat) list \<Rightarrow>
   py_error + (pyfloat \<times> pyfloat) list" where
  "phyllotaxis_loop c lat0 lon0 num_points scale [] pts = Inr pts"
| "phyllotaxis_loop c lat0 lon0 num_points scale (i # rest) pts =
     bnd (phyllotaxis_point c lat0 lon0 num_points scale i) (\<lambda>pt.
     phyllotaxis_loop c lat0 lon0 num_points scale rest (pts @ [pt]))"

definition generate_phyllotaxis ::
  "cosine \<Rightarrow> pyfloat \<Rightarrow> pyfloat \<Rightarrow> int \<Rightarrow> pyfloat \<Rightarrow> py_error + (pyfloat \<times> pyfloat) list" where
  "generate_phyllotaxis c lat0 lon0 num_points scale =
     phyllotaxis_loop c lat0 lon0 num_points scale [0..<nat num_points] []"

section \<open>Notions used to state the properties\<close>

text \<open>
  Rounding to decimals as the specification of Python's \<^verbatim>\<open>round\<close> and of the
  format \<^verbatim>\<open>.1f\<close> words it, without reference to how it is computed: \<open>y\<close> is \<open>x\<close>
  rounded to \<open>n\<close> decimals when \<open>y\<close> is a multiple of \<open>10 ^ - n\<close> nearest to \<open>x\<close>, the one
  with an even last digit when \<open>x\<close> is halfway between two of them.
\<close>

definition rounds_to :: "real \<Rightarrow> nat \<Rightarrow> real \<Rightarrow> bool" where
  "rounds_to x n y =
     (\<exists>k :: int. y = of_int k / 10 ^ n \<and> \<bar>x * 10 ^ n - of_int k\<bar> \<le> 1 / 2 \<and>
        (\<bar>x * 10 ^ n - of_int k\<bar> = 1 / 2 \<longrightarrow> even k))"

text \<open>A coordinate list as a geometry of the geojson library stores it: entry by entry,
  every number rounded to six decimals.\<close>

fun rounded_entry :: "param \<Rightarrow> param \<Rightarrow> bool" where
  "rounded_entry (Num x) (Num y) = rounds_to x 6 y"
| "rounded_entry (Seq xs) (Seq ys) = list_all2 (\<lambda>x y. rounds_to x 6 y) xs ys"
| "rounded_entry (Num x) (Seq ys) = False"
| "rounded_entry (Seq xs) (Num y) = False"

definition rounded_ring :: "param list list \<Rightarrow> param list list \<Rightarrow> bool" where
  "rounded_ring cs ring = list_all2 (list_all2 rounded_entry) cs ring"

text \<open>The \<^verbatim>\<open>name\<close> property of a feature.\<close>

definition feature_name :: "feature \<Rightarrow> propval option" where
  "feature_name f = map_of (properties f) ''name''"

text \<open>
  What one pass of the loop of \<^verbatim>\<open>main\<close> at position \<open>i\<close> emits for a profile:
  the receiver feature, the link feature and the ring coordinate, all built from the
  parameter list derived for that profile and the loss computed from it.
\<close>

definition emitted ::
  "('p \<Rightarrow> py_error + param list) \<Rightarrow> (param list \<Rightarrow> py_error + real \<times> real) \<Rightarrow>
   nat \<Rightarrow> 'p \<Rightarrow> feature \<Rightarrow> feature \<Rightarrow> param list \<Rightarrow> bool" where
  "emitted plp loss i profile rx lk cd =
     (\<exists>p Lb Ep. plp profile = Inr p \<and> loss p = Inr (Lb, Ep) \<and> 13 < length p \<and>
        generate_geojson_point_receiver p (i + 1) Lb Ep = Inr (rx, p) \<and>
        generate_geojson_line p i Lb Ep = Inr (lk, p) \<and>
        cd = [p ! 13, p ! 11])"

text \<open>\<^verbatim>\<open>float(p[2][-1])\<close> for the parameter list \<open>p\<close> of a profile: the last element
  of its distance sequence.\<close>

definition last_distance :: "('p \<Rightarrow> py_error + param list) \<Rightarrow> 'p \<Rightarrow> py_error + real" where
  "last_distance plp profile =
     bnd (plp profile) (\<lambda>p. bnd (py_index p 2) (\<lambda>d. subscript d (- 1)))"

text \<open>The ranges of the fields of a local time, for a year of four digits.\<close>

definition valid_time :: "struct_time \<Rightarrow> bool" where
  "valid_time t =
     (1000 \<le> tm_year t \<and> tm_year t \<le> 9999 \<and> 1 \<le> tm_mon t \<and> tm_mon t \<le> 12 \<and>
      1 \<le> tm_mday t \<and> tm_mday t \<le> 31 \<and> tm_hour t \<le> 23 \<and> tm_min t \<le> 59 \<and>
      tm_sec t \<le> 61)"

text \<open>The parameter \<open>k\<close> of a section of a configuration, when the section is a
  dictionary that has it.\<close>

definition param_of :: "heap \<Rightarrow> dict \<Rightarrow> string \<Rightarrow> string \<Rightarrow> pyval option" where
  "param_of h config section k =
     (case map_of config (KStr section) of
        Some (VDict a) \<Rightarrow> map_of (objs h a) (KStr k)
      | _ \<Rightarrow> None)"

text \<open>
  The configurations of the data model: the sections TRANSMITTER and P1812, where
  present, are dictionaries, and the frequency and the time percentage, where present,
  are numbers.
\<close>

definition is_dict :: "pyval option \<Rightarrow> bool" where
  "is_dict v = (case v of Some (VDict _) \<Rightarrow> True | Some _ \<Rightarrow> False | None \<Rightarrow> True)"

definition is_num :: "pyval option \<Rightarrow> bool" where
  "is_num v = (case v of Some (VNum _) \<Rightarrow> True | Some _ \<Rightarrow> False | None \<Rightarrow> True)"

definition typed_config :: "heap \<Rightarrow> dict \<Rightarrow> bool" where
  "typed_config h config =
     (is_dict (map_of config (KStr ''TRANSMITTER'')) \<and>
      is_dict (map_of config (KStr ''P1812'')) \<and>
      is_num (param_of h config ''P1812'' ''frequency_ghz'') \<and>
      is_num (param_of h config ''P1812'' ''time_percentage''))"

text \<open>
  The conditions under which the specification says that validation fails: a required
  section is absent, a required key of TRANSMITTER or of P1812 is absent, the frequency
  is outside [0.03, 6], the time percentage is outside [1, 50], or the polarization is
  neither 1 nor 2.
\<close>

definition config_invalid :: "heap \<Rightarrow> dict \<Rightarrow> bool" where
  "config_invalid h config =
     (list_ex (\<lambda>sec. map_of config (KStr sec) = None) required_sections \<or>
      list_ex (\<lambda>k. param_of h config ''TRANSMITTER'' k = None) required_tx_keys \<or>
      list_ex (\<lambda>k. param_of h config ''P1812'' k = None) required_p1812 \<or>
      (case param_of h config ''P1812'' ''frequency_ghz'' of
         Some (VNum x) \<Rightarrow> x < 3 / 100 \<or> 6 < x | _ \<Rightarrow> False) \<or>
      (case param_of h config ''P1812'' ''time_percentage'' of
         Some (VNum x) \<Rightarrow> x < 1 \<or> 50 < x | _ \<Rightarrow> False) \<or>
      (case param_of h config ''P1812'' ''polarization'' of
         Some v \<Rightarrow> v \<noteq> VNum 1 \<and> v \<noteq> VNum 2 | None \<Rightarrow> False))"

text \<open>What the message of a validation error names: the absent sections or keys, or
  the parameter value that is out of range.\<close>

definition names_violation :: "heap \<Rightarrow> dict \<Rightarrow> vmsg \<Rightarrow> bool" where
  "names_violation h config m =
     (case m of
        MissingSections secs \<Rightarrow>
          secs = filter (\<lambda>sec. map_of config (KStr sec) = None) required_sections \<and> secs \<noteq> []
      | MissingTransmitterKeys ks \<Rightarrow>
          ks = filter (\<lambda>k. param_of h config ''TRANSMITTER'' k = None) required_tx_keys \<and>
          ks \<noteq> []
      | MissingP1812Keys ks \<Rightarrow>
          ks = filter (\<lambda>k. param_of h config ''P1812'' k = None) required_p1812 \<and> ks \<noteq> []
      | FrequencyOutsideRange v \<Rightarrow>
          param_of h config ''P1812'' ''frequency_ghz'' = Some v \<and>
          (case v of VNum x \<Rightarrow> x < 3 / 100 \<or> 6 < x | _ \<Rightarrow> False)
      | TimePercentageOutsideRange v \<Rightarrow>
          param_of h config ''P1812'' ''time_percentage'' = Some v \<and>
          (case v of VNum x \<Rightarrow> x < 1 \<or> 50 < x | _ \<Rightarrow> False)
      | PolarizationInvalid v \<Rightarrow>
          param_of h config ''P1812'' ''polarization'' = Some v \<and> v \<noteq> VNum 1 \<and> v \<noteq> VNum 2)"

text \<open>A configuration without the section P1812, over the sections of the defaults.\<close>

definition example_no_p1812 :: dict where
  "example_no_p1812 =
     [(KStr ''TRANSMITTER'', VDict 0),
      (KStr ''RECEIVER_GENERATION'', VDict 2),
      (KStr ''LCM10_TO_CT'', VDict 4),
      (KStr ''CT_TO_R'', VDict 5)]"

text \<open>The sections on which \<^verbatim>\<open>ConfigManager.set\<close> can assign, for a manager that
  has been allocated: absent, or a nested dictionary (one that is not the manager's
  configuration dictionary itself).\<close>

definition assignable :: "heap \<Rightarrow> addr \<Rightarrow> string \<Rightarrow> bool" where
  "assignable h self section =
     (self < fresh h \<and>
      (case map_of (objs h self) (KStr section) of
         None \<Rightarrow> True
       | Some (VDict a) \<Rightarrow> a \<noteq> self
       | Some _ \<Rightarrow> False))"

text \<open>The heap after a manager has been made from the defaults, at address 7.\<close>

definition example_manager_heap :: heap where
  "example_manager_heap =
     module_heap\<lparr>objs := (objs module_heap)(7 := objs module_heap DEFAULT_CONFIG), fresh := 8\<rparr>"

text \<open>The values of an override that are not dictionaries, and the Python value each
  of them is.\<close>

definition is_leaf :: "oval \<Rightarrow> bool" where
  "is_leaf x = (case x of ODict _ \<Rightarrow> False | _ \<Rightarrow> True)"

definition scalar_of :: "oval \<Rightarrow> pyval" where
  "scalar_of x = (case x of ONum r \<Rightarrow> VNum r | OStr s \<Rightarrow> VStr s | _ \<Rightarrow> VNone)"

text \<open>The heap after a second manager has been made from the defaults, at address 8.\<close>

definition example_two_managers_heap :: heap where
  "example_two_managers_heap =
     module_heap\<lparr>objs := (objs module_heap)
                   (7 := objs module_heap DEFAULT_CONFIG, 8 := objs module_heap DEFAULT_CONFIG),
                 fresh := 9\<rparr>"

text \<open>A manager holds the dictionary at address \<open>a\<close> as its section: the entry of its
  configuration dictionary for the section is the reference \<open>a\<close>.\<close>

definition holds_section :: "heap \<Rightarrow> addr \<Rightarrow> string \<Rightarrow> addr \<Rightarrow> bool" where
  "holds_section h m section a =
     (m \<noteq> a \<and> map_of (objs h m) (KStr section) = Some (VDict a))"

text \<open>The heap after a manager has been made at address 7 with the override
  \<^verbatim>\<open>{"SENTINEL_HUB": None}\<close>, and the heap after a manager has then been made from
  the defaults at address 8.\<close>

definition example_replaced_heap :: heap where
  "example_replaced_heap =
     module_heap\<lparr>objs := (objs module_heap)
                   (7 := [(KStr ''TRANSMITTER'', VDict 0),
                          (KStr ''P1812'', VDict 1),
                          (KStr ''RECEIVER_GENERATION'', VDict 2),
                          (KStr ''SENTINEL_HUB'', VNone),
                          (KStr ''LCM10_TO_CT'', VDict 4),
                          (KStr ''CT_TO_R'', VDict 5)]),
                 fresh := 8\<rparr>"

definition example_replaced_two_heap :: heap where
  "example_replaced_two_heap =
     example_replaced_heap
       \<lparr>objs := (objs example_replaced_heap)(8 := objs module_heap DEFAULT_CONFIG),
         fresh := 9\<rparr>"

text \<open>The defaults with the section TRANSMITTER set to None (an empty section of a
  YAML file).\<close>

definition example_null_transmitter :: dict where
  "example_null_transmitter =
     [(KStr ''TRANSMITTER'', VNone),
      (KStr ''P1812'', VDict 1),
      (KStr ''RECEIVER_GENERATION'', VDict 2),
      (KStr ''SENTINEL_HUB'', VDict 3),
      (KStr ''LCM10_TO_CT'', VDict 4),
      (KStr ''CT_TO_R'', VDict 5)]"

text \<open>
  A concrete run, used to instantiate the theorems: a profile is given by the last
  distance \<open>d\<close> of its path, \<open>example_plp\<close> is a parameter derivation that returns a
  list of fourteen entries for it, and \<open>example_loss\<close> a loss computation.
\<close>

definition example_plp :: "real \<Rightarrow> py_error + param list" where
  "example_plp d =
     Inr [Num (9 / 10), Num 50, Seq [0, d], Seq [10, 12], Seq [0, 0], Seq [2, 2], Seq [4, 4],
          Num 57, Num 10, Num 1, Num 9, Num (9 + d), Num (- 13), Num (- 13 + d)]"

definition example_loss :: "param list \<Rightarrow> py_error + real \<times> real" where
  "example_loss p = Inr (120, 35)"

definition example_now :: struct_time where
  "example_now =
     \<lparr>tm_year = 2026, tm_mon = 1, tm_mday = 5, tm_hour = 13, tm_min = 4, tm_sec = 59\<rparr>"

text \<open>A cosine for the examples: the exact cosine, and \<open>6.123e-17\<close> where that is
  zero.\<close>

lift_definition example_cosine :: cosine is
  "\<lambda>x. if cos x = 0 then 6123 / 10 ^ 20 else cos x"
  by simp

section \<open>Basic facts about errors and indexing\<close>

lemma bnd_Inr [simp]: "bnd (Inr v) f = f v"
  by (simp add: bnd_def)

lemma bnd_Inl [simp]: "bnd (Inl e) f = Inl e"
  by (simp add: bnd_def)

lemma bnd_eq_Inr: "bnd m f = Inr y \<longleftrightarrow> (\<exists>v. m = Inr v \<and> f v = Inr y)"
  by (cases m) simp_all

lemma py_index_first: "xs \<noteq> [] \<Longrightarrow> py_index xs 0 = Inr (hd xs)"
  by (cases xs) (simp_all add: py_index_def)

lemma py_index_final: "xs \<noteq> [] \<Longrightarrow> py_index xs (- 1) = Inr (last xs)"
  by (cases xs rule: rev_cases) (simp_all add: py_index_def)

lemma py_index_nat_Inr: "py_index xs (int n) = Inr v \<Longrightarrow> n < length xs \<and> v = xs ! n"
  by (auto simp: py_index_def split: if_splits)

lemma py_index_13: "py_index p 13 = Inr v \<Longrightarrow> 13 < length p \<and> v = p ! 13"
  using py_index_nat_Inr [of p 13 v] by simp

lemma py_index_11: "py_index p 11 = Inr v \<Longrightarrow> v = p ! 11"
  using py_index_nat_Inr [of p 11 v] by simp

section \<open>Rounding\<close>

lemma round_half_even_nearest:
  "\<bar>x - of_int (round_half_even x)\<bar> \<le> 1 / 2 \<and>
   (\<bar>x - of_int (round_half_even x)\<bar> = 1 / 2 \<longrightarrow> even (round_half_even x))"
proof -
  define f where "f = \<lfloor>x\<rfloor>"
  have fl: "of_int f \<le> x" "x < of_int f + 1"
    unfolding f_def by linarith+
  consider "x - of_int f < 1 / 2" | "1 / 2 < x - of_int f" | "x - of_int f = 1 / 2"
    by linarith
  then show ?thesis
  proof cases
    case 1
    then have "round_half_even x = f"
      by (simp add: round_half_even_def f_def Let_def)
    with 1 fl show ?thesis by simp
  next
    case 2
    then have "round_half_even x = f + 1"
      by (simp add: round_half_even_def f_def Let_def)
    with 2 fl show ?thesis by simp
  next
    case 3
    then have "round_half_even x = (if even f then f else f + 1)"
      by (simp add: round_half_even_def f_def Let_def)
    with 3 show ?thesis by auto
  qed
qed

lemma round_half_even_nonneg: "0 \<le> x \<Longrightarrow> 0 \<le> round_half_even x"
  by (auto simp: round_half_even_def Let_def)

lemma py_round_rounds_to: "rounds_to x n (py_round x n)"
  unfolding rounds_to_def py_round_def
  using round_half_even_nearest [of "x * 10 ^ n"]
  by (intro exI [of _ "round_half_even (x * 10 ^ n)"]) simp

lemma clean_param_rounded: "rounded_entry p (clean_param p)"
  by (cases p) (simp_all add: py_round_rounds_to list_all2_map2 list_all2_same)

lemma clean_coordinates_rounded: "list_all2 rounded_entry cd (clean_coordinates cd)"
  by (simp add: clean_coordinates_def list_all2_map2 list_all2_same clean_param_rounded)

lemma clean_ring_rounded: "rounded_ring cs (map clean_coordinates cs)"
  by (simp add: rounded_ring_def list_all2_map2 list_all2_same clean_coordinates_rounded)

lemma py_round_int: "py_round (of_int k) n = of_int k"
proof -
  have "of_int k * (10 :: real) ^ n = of_int (k * 10 ^ n)"
    by simp
  then have "round_half_even (of_int k * 10 ^ n) = k * 10 ^ n"
    by (simp only: round_half_even_def Let_def floor_of_int) simp
  then show ?thesis
    by (simp add: py_round_def)
qed

lemma py_round_numeral [simp]:
  "py_round (numeral w) 6 = numeral w" "py_round (- numeral w) 6 = - numeral w"
  "py_round 0 6 = 0" "py_round 1 6 = 1"
  using py_round_int [of "numeral w" 6] py_round_int [of "- numeral w" 6]
    py_round_int [of 0 6] py_round_int [of 1 6]
  by simp_all

lemma py_round_example: "py_round (1 / 128) 6 = 7812 / 1000000"
  by (simp add: py_round_def round_half_even_def Let_def)

section \<open>The coverage polygon\<close>

lemma ring_is_open_eq: "ring_is_open cs = Inr (cs \<noteq> [] \<and> hd cs \<noteq> last cs)"
  by (simp add: ring_is_open_def py_index_first py_index_final)

lemma generate_geojson_polygon_eq:
  "generate_geojson_polygon cs =
     Inr (FeatureCollection
            [\<lparr>geometry =
                Polygon [map clean_coordinates
                           (if cs \<noteq> [] \<and> hd cs \<noteq> last cs then cs @ [hd cs] else cs)],
              properties = [(''name'', PStr ''Coverage area'')]\<rparr>],
          if cs \<noteq> [] \<and> hd cs \<noteq> last cs then cs @ [hd cs] else cs)"
  by (simp add: generate_geojson_polygon_def ring_is_open_eq py_index_first geojson_Polygon_def)

lemma example_polygon:
  "generate_geojson_polygon [[Num (1 / 128), Num 0], [Num 1, Num 0], [Num 1, Num 1]] =
     Inr (FeatureCollection
            [\<lparr>geometry =
                Polygon [[[Num (7812 / 1000000), Num 0], [Num 1, Num 0], [Num 1, Num 1],
                          [Num (7812 / 1000000), Num 0]]],
              properties = [(''name'', PStr ''Coverage area'')]\<rparr>],
          [[Num (1 / 128), Num 0], [Num 1, Num 0], [Num 1, Num 1], [Num (1 / 128), Num 0]])"
  by (simp add: generate_geojson_polygon_eq clean_coordinates_def py_round_example)

text \<open>
  C4, as the claim states it, fails: the ring of the polygon is not the list that was
  passed with its first vertex appended, but a copy in which the geojson library has
  rounded every number to six decimals. The vertex \<open>(0.0078125, 0)\<close> is emitted as
  \<open>(0.007812, 0)\<close>.
\<close>

theorem polygon_ring_rounded:
  "generate_geojson_polygon [[Num (1 / 128), Num 0], [Num 1, Num 0], [Num 1, Num 1]] =
     Inr (FeatureCollection
            [\<lparr>geometry =
                Polygon [[[Num (7812 / 1000000), Num 0], [Num 1, Num 0], [Num 1, Num 1],
                          [Num (7812 / 1000000), Num 0]]],
              properties = [(''name'', PStr ''Coverage area'')]\<rparr>],
          [[Num (1 / 128), Num 0], [Num 1, Num 0], [Num 1, Num 1], [Num (1 / 128), Num 0]]) \<and>
   [[Num (7812 / 1000000), Num 0], [Num 1, Num 0], [Num 1, Num 1],
    [Num (7812 / 1000000), Num 0]] \<noteq>
   [[Num (1 / 128), Num 0], [Num 1, Num 0], [Num 1, Num 1]] @ [[Num (1 / 128), Num 0]]"
  by (simp add: example_polygon)

text \<open>
  C4, amended. For every coordinate list, \<^verbatim>\<open>generate_geojson_polygon\<close> returns (it does
  not raise) a feature collection of exactly one polygon feature whose only property is
  name = "Coverage area". Its ring is, with every number rounded to six decimals (ties
  to even): the input with the first vertex appended when the input is non-empty and
  its last vertex differs from the first, the input itself when the last vertex equals
  the first, and the empty ring for the empty input.
\<close>

theorem polygon_ring_closed:
  "\<exists>ring after.
     generate_geojson_polygon cs =
       Inr (FeatureCollection
              [\<lparr>geometry = Polygon [ring],
                properties = [(''name'', PStr ''Coverage area'')]\<rparr>], after) \<and>
     (cs \<noteq> [] \<and> last cs \<noteq> hd cs \<longrightarrow> rounded_ring (cs @ [hd cs]) ring) \<and>
     (cs \<noteq> [] \<and> last cs = hd cs \<longrightarrow> rounded_ring cs ring) \<and>
     (cs = [] \<longrightarrow> ring = [])"
  unfolding generate_geojson_polygon_eq
  using clean_ring_rounded [of cs] clean_ring_rounded [of "cs @ [hd cs]"]
  by auto

theorem polygon_ring_closed_witness:
  "generate_geojson_polygon [[Num (1 / 128), Num 0], [Num 1, Num 0], [Num 1, Num 1]] =
     Inr (FeatureCollection
            [\<lparr>geometry =
                Polygon [[[Num (7812 / 1000000), Num 0], [Num 1, Num 0], [Num 1, Num 1],
                          [Num (7812 / 1000000), Num 0]]],
              properties = [(''name'', PStr ''Coverage area'')]\<rparr>],
          [[Num (1 / 128), Num 0], [Num 1, Num 0], [Num 1, Num 1], [Num (1 / 128), Num 0]]) \<and>
   rounded_ring
     [[Num (1 / 128), Num 0], [Num 1, Num 0], [Num 1, Num 1], [Num (1 / 128), Num 0]]
     [[Num (7812 / 1000000), Num 0], [Num 1, Num 0], [Num 1, Num 1],
      [Num (7812 / 1000000), Num 0]]"
  using polygon_ring_closed [of "[[Num (1 / 128), Num 0], [Num 1, Num 0], [Num 1, Num 1]]"]
  by (simp add: example_polygon)

section \<open>The processing loop of the batch run\<close>

lemma transmitter_name:
  "generate_geojson_point_transmitter p = Inr (f, p') \<Longrightarrow>
   feature_name f = Some (PStr ''Transmitter'')"
  by (auto simp: generate_geojson_point_transmitter_def bnd_eq_Inr feature_name_def)

lemma receiver_name:
  "generate_geojson_point_receiver p n Lb Ep = Inr (f, p') \<Longrightarrow>
   feature_name f = Some (PStr (''Receiver_'' @ str_nat n))"
  by (auto simp: generate_geojson_point_receiver_def bnd_eq_Inr feature_name_def)

lemma line_name:
  "generate_geojson_line p i Lb Ep = Inr (f, p') \<Longrightarrow>
   feature_name f = Some (PStr (''Link_'' @ str_nat (i + 1)))"
  by (auto simp: generate_geojson_line_def bnd_eq_Inr feature_name_def)

text \<open>The transmitter, receiver and link functions leave the parameter list as it
  is.\<close>

lemma transmitter_frame: "generate_geojson_point_transmitter p = Inr (f, p') \<Longrightarrow> p' = p"
  by (auto simp: generate_geojson_point_transmitter_def bnd_eq_Inr)

lemma receiver_frame: "generate_geojson_point_receiver p n Lb Ep = Inr (f, p') \<Longrightarrow> p' = p"
  by (auto simp: generate_geojson_point_receiver_def bnd_eq_Inr)

lemma line_frame: "generate_geojson_line p i Lb Ep = Inr (f, p') \<Longrightarrow> p' = p"
  by (auto simp: generate_geojson_line_def bnd_eq_Inr)

lemma emitted_names:
  assumes "emitted plp loss i profile rx lk cd"
  shows "feature_name rx = Some (PStr (''Receiver_'' @ str_nat (i + 1)))"
    and "feature_name lk = Some (PStr (''Link_'' @ str_nat (i + 1)))"
  using assms by (auto simp: emitted_def dest: receiver_name line_name)

lemma loop_body_pos:
  assumes "loop_body plp loss i profile st = Inr st'" and "0 < i"
  shows "\<exists>rx lk cd. emitted plp loss i profile rx lk cd \<and>
           points st' = points st @ [rx] \<and> lines st' = lines st @ [lk] \<and>
           polygon_coords st' = polygon_coords st @ [cd]"
proof -
  from assms obtain p Lb Ep rx p1 lk p2 where
    p: "plp profile = Inr p" "loss p = Inr (Lb, Ep)" and
    rx: "generate_geojson_point_receiver p (i + 1) Lb Ep = Inr (rx, p1)" and
    lk: "generate_geojson_line p1 i Lb Ep = Inr (lk, p2)" and
    ix: "13 < length p2" and
    st': "st' = st\<lparr>points := points st @ [rx], lines := lines st @ [lk],
                   polygon_coords := polygon_coords st @ [[p2 ! 13, p2 ! 11]]\<rparr>"
    by (auto simp: loop_body_def bnd_eq_Inr dest!: py_index_13 py_index_11)
  from receiver_frame [OF rx] have p1: "p1 = p" .
  from line_frame [OF lk] p1 have p2: "p2 = p" by simp
  from p rx lk ix have "emitted plp loss i profile rx lk [p ! 13, p ! 11]"
    unfolding emitted_def p1 p2 by blast
  with st' show ?thesis
    by (simp add: p2)
qed

lemma loop_body_zero:
  assumes "loop_body plp loss 0 profile st = Inr st'"
  shows "\<exists>tx rx lk cd p. emitted plp loss 0 profile rx lk cd \<and>
           plp profile = Inr p \<and> generate_geojson_point_transmitter p = Inr (tx, p) \<and>
           points st' = points st @ [tx, rx] \<and> lines st' = lines st @ [lk] \<and>
           polygon_coords st' = polygon_coords st @ [cd]"
proof -
  from assms obtain p Lb Ep tx p0 rx p1 lk p2 where
    p: "plp profile = Inr p" "loss p = Inr (Lb, Ep)" and
    tx: "generate_geojson_point_transmitter p = Inr (tx, p0)" and
    rx: "generate_geojson_point_receiver p0 (0 + 1) Lb Ep = Inr (rx, p1)" and
    lk: "generate_geojson_line p1 0 Lb Ep = Inr (lk, p2)" and
    ix: "13 < length p2" and
    st': "st' = st\<lparr>points := points st @ [tx, rx], lines := lines st @ [lk],
                   polygon_coords := polygon_coords st @ [[p2 ! 13, p2 ! 11]]\<rparr>"
    by (auto simp: loop_body_def bnd_eq_Inr dest!: py_index_13 py_index_11)
  from transmitter_frame [OF tx] have p0: "p0 = p" .
  from receiver_frame [OF rx] p0 have p1: "p1 = p" by simp
  from line_frame [OF lk] p1 have p2: "p2 = p" by simp
  from p rx lk ix have "emitted plp loss 0 profile rx lk [p ! 13, p ! 11]"
    unfolding emitted_def p0 p1 p2 by blast
  with st' p(1) tx show ?thesis
    by (simp add: p0 p2)
qed

lemma process_profiles_pos:
  assumes "process_profiles plp loss k profiles st = Inr st'" and "0 < k"
  shows "\<exists>rxs lks cds.
           length rxs = length profiles \<and> length lks = length profiles \<and>
           length cds = length profiles \<and>
           points st' = points st @ rxs \<and> lines st' = lines st @ lks \<and>
           polygon_coords st' = polygon_coords st @ cds \<and>
           (\<forall>i<length profiles.
              emitted plp loss (k + i) (profiles ! i) (rxs ! i) (lks ! i) (cds ! i))"
  using assms
proof (induction profiles arbitrary: k st)
  case Nil
  then show ?case by simp
next
  case (Cons profile rest)
  from Cons.prems obtain st1 where
    body: "loop_body plp loss k profile st = Inr st1" and
    tail: "process_profiles plp loss (k + 1) rest st1 = Inr st'"
    by (auto simp: bnd_eq_Inr)
  from loop_body_pos [OF body \<open>0 < k\<close>] obtain rx lk cd where
    e: "emitted plp loss k profile rx lk cd" and
    s1: "points st1 = points st @ [rx]" "lines st1 = lines st @ [lk]"
        "polygon_coords st1 = polygon_coords st @ [cd]"
    by blast
  from Cons.IH [OF tail] obtain rxs lks cds where
    len: "length rxs = length rest" "length lks = length rest" "length cds = length rest" and
    s2: "points st' = points st1 @ rxs" "lines st' = lines st1 @ lks"
        "polygon_coords st' = polygon_coords st1 @ cds" and
    rest: "\<forall>i<length rest.
             emitted plp loss (k + 1 + i) (rest ! i) (rxs ! i) (lks ! i) (cds ! i)"
    by auto
  have "\<forall>i<length (profile # rest).
          emitted plp loss (k + i) ((profile # rest) ! i)
            ((rx # rxs) ! i) ((lk # lks) ! i) ((cd # cds) ! i)"
  proof (intro allI impI)
    fix i assume "i < length (profile # rest)"
    then show "emitted plp loss (k + i) ((profile # rest) ! i)
                 ((rx # rxs) ! i) ((lk # lks) ! i) ((cd # cds) ! i)"
      using e rest by (cases i) auto
  qed
  then show ?case
    using len s1 s2
    by (intro exI [of _ "rx # rxs"] exI [of _ "lk # lks"] exI [of _ "cd # cds"]) simp
qed

text \<open>The whole loop, started as \<^verbatim>\<open>main\<close> starts it: the transmitter comes from
  the first profile, then one receiver, one link and one ring coordinate per profile.\<close>

lemma process_profiles_start:
  assumes "process_profiles plp loss 0 (profile # rest) empty_batch = Inr st"
  shows "\<exists>p tx rxs lks cds.
           plp profile = Inr p \<and> generate_geojson_point_transmitter p = Inr (tx, p) \<and>
           length rxs = Suc (length rest) \<and> length lks = Suc (length rest) \<and>
           length cds = Suc (length rest) \<and>
           points st = tx # rxs \<and> lines st = lks \<and> polygon_coords st = cds \<and>
           (\<forall>i<Suc (length rest).
              emitted plp loss i ((profile # rest) ! i) (rxs ! i) (lks ! i) (cds ! i))"
proof -
  from assms obtain st1 where
    body: "loop_body plp loss 0 profile empty_batch = Inr st1" and
    tail: "process_profiles plp loss 1 rest st1 = Inr st"
    by (auto simp: bnd_eq_Inr)
  from loop_body_zero [OF body] obtain tx rx lk cd p where
    e: "emitted plp loss 0 profile rx lk cd" and
    p: "plp profile = Inr p" "generate_geojson_point_transmitter p = Inr (tx, p)" and
    s1: "points st1 = [tx, rx]" "lines st1 = [lk]" "polygon_coords st1 = [cd]"
    by (auto simp: empty_batch_def)
  from process_profiles_pos [OF tail] obtain rxs lks cds where
    len: "length rxs = length rest" "length lks = length rest" "length cds = length rest" and
    s2: "points st = points st1 @ rxs" "lines st = lines st1 @ lks"
        "polygon_coords st = polygon_coords st1 @ cds" and
    rest: "\<forall>i<length rest. emitted plp loss (1 + i) (rest ! i) (rxs ! i) (lks ! i) (cds ! i)"
    by auto
  have "\<forall>i<Suc (length rest).
          emitted plp loss i ((profile # rest) ! i)
            ((rx # rxs) ! i) ((lk # lks) ! i) ((cd # cds) ! i)"
  proof (intro allI impI)
    fix i assume "i < Suc (length rest)"
    then show "emitted plp loss i ((profile # rest) ! i)
                 ((rx # rxs) ! i) ((lk # lks) ! i) ((cd # cds) ! i)"
      using e rest by (cases i) auto
  qed
  then show ?thesis
    using p len s1 s2
    by (intro exI [of _ p] exI [of _ tx] exI [of _ "rx # rxs"] exI [of _ "lk # lks"]
          exI [of _ "cd # cds"]) simp
qed

lemma main_Inr:
  assumes "main plp (Some loss) now profiles = Inr out"
  shows "\<exists>st max_d_km.
           process_profiles plp loss 0 profiles empty_batch = Inr st \<and>
           max_distance plp profiles 0 = Inr max_d_km \<and>
           polygon_fc out =
             FeatureCollection
               [\<lparr>geometry =
                   Polygon [map clean_coordinates
                              (if polygon_coords st \<noteq> [] \<and>
                                  hd (polygon_coords st) \<noteq> last (polygon_coords st)
                               then polygon_coords st @ [hd (polygon_coords st)]
                               else polygon_coords st)],
                 properties = [(''name'', PStr ''Coverage area'')]\<rparr>] \<and>
           generate_geojson_polygon (polygon_coords st) =
             Inr (polygon_fc out, if polygon_coords st \<noteq> [] \<and>
                                     hd (polygon_coords st) \<noteq> last (polygon_coords st)
                                  then polygon_coords st @ [hd (polygon_coords st)]
                                  else polygon_coords st) \<and>
           points_fc out = FeatureCollection (points st) \<and>
           lines_fc out = FeatureCollection (lines st) \<and>
           points_path out =
             ''points_'' @ d_tag_of max_d_km @ ''_'' @ strftime_Ymd_HMS now @ ''.geojson'' \<and>
           lines_path out =
             ''lines_'' @ d_tag_of max_d_km @ ''_'' @ strftime_Ymd_HMS now @ ''.geojson'' \<and>
           polygon_path out =
             ''polygon_'' @ d_tag_of max_d_km @ ''_'' @ strftime_Ymd_HMS now @ ''.geojson''"
  using assms
  by (auto simp: main_def bnd_eq_Inr generate_geojson_polygon_eq Let_def)

lemma example_run:
  "process_profiles example_plp example_loss 0 [2, 5, 3] empty_batch =
     Inr \<lparr>points =
            [\<lparr>geometry = Point [Num (- 13), Num 9],
              properties =
                [(''name'', PStr ''Transmitter''), (''frequency'', PVal (Num (9 / 10))),
                 (''htg'', PVal (Num 57)), (''polarization'', PVal (Num 1)),
                 (''lon'', PVal (Num (- 13))), (''lat'', PVal (Num 9))]\<rparr>,
             \<lparr>geometry = Point [Num (- 11), Num 11],
              properties =
                [(''name'', PStr ''Receiver_1''), (''Lb'', PVal (Num 120)),
                 (''Ep'', PVal (Num 35)), (''hrg'', PVal (Num 10)),
                 (''distance'', PVal (Num 2)), (''lon'', PVal (Num (- 11))),
                 (''lat'', PVal (Num 11))]\<rparr>,
             \<lparr>geometry = Point [Num (- 8), Num 14],
              properties =
                [(''name'', PStr ''Receiver_2''), (''Lb'', PVal (Num 120)),
                 (''Ep'', PVal (Num 35)), (''hrg'', PVal (Num 10)),
                 (''distance'', PVal (Num 5)), (''lon'', PVal (Num (- 8))),
                 (''lat'', PVal (Num 14))]\<rparr>,
             \<lparr>geometry = Point [Num (- 10), Num 12],
              properties =
                [(''name'', PStr ''Receiver_3''), (''Lb'', PVal (Num 120)),
                 (''Ep'', PVal (Num 35)), (''hrg'', PVal (Num 10)),
                 (''distance'', PVal (Num 3)), (''lon'', PVal (Num (- 10))),
                 (''lat'', PVal (Num 12))]\<rparr>],
          lines =
            [\<lparr>geometry = LineString [[Num (- 13), Num 9], [Num (- 11), Num 11]],
              properties =
                [(''name'', PStr ''Link_1''), (''rx_id'', PInt 1),
                 (''tx_lon'', PVal (Num (- 13))), (''tx_lat'', PVal (Num 9)),
                 (''rx_lon'', PVal (Num (- 11))), (''rx_lat'', PVal (Num 11)),
                 (''distance_km'', PVal (Num 2)), (''Lb'', PVal (Num 120)),
                 (''Ep'', PVal (Num 35))]\<rparr>,
             \<lparr>geometry = LineString [[Num (- 13), Num 9], [Num (- 8), Num 14]],
              properties =
                [(''name'', PStr ''Link_2''), (''rx_id'', PInt 2),
                 (''tx_lon'', PVal (Num (- 13))), (''tx_lat'', PVal (Num 9)),
                 (''rx_lon'', PVal (Num (- 8))), (''rx_lat'', PVal (Num 14)),
                 (''distance_km'', PVal (Num 5)), (''Lb'', PVal (Num 120)),
                 (''Ep'', PVal (Num 35))]\<rparr>,
             \<lparr>geometry = LineString [[Num (- 13), Num 9], [Num (- 10), Num 12]],
              properties =
                [(''name'', PStr ''Link_3''), (''rx_id'', PInt 3),
                 (''tx_lon'', PVal (Num (- 13))), (''tx_lat'', PVal (Num 9)),
                 (''rx_lon'', PVal (Num (- 10))), (''rx_lat'', PVal (Num 12)),
                 (''distance_km'', PVal (Num 3)), (''Lb'', PVal (Num 120)),
                 (''Ep'', PVal (Num 35))]\<rparr>],
          polygon_coords = [[Num (- 11), Num 11], [Num (- 8), Num 14], [Num (- 10), Num 12]]\<rparr>"
  by (simp add: loop_body_def example_plp_def example_loss_def empty_batch_def
        generate_geojson_point_transmitter_def generate_geojson_point_receiver_def
        generate_geojson_line_def py_index_def subscript_def str_nat.simps digit_char_def
        geojson_Point_def geojson_LineString_def clean_coordinates_def)

text \<open>
  C5, as the claim states it, fails: a call with a ring of three distinct vertices
  leaves four coordinates in the caller's list.
\<close>

theorem polygon_argument_mutated:
  "generate_geojson_polygon [[Num 0, Num 0], [Num 1, Num 0], [Num 1, Num 1]] =
     Inr (FeatureCollection
            [\<lparr>geometry = Polygon [[[Num 0, Num 0], [Num 1, Num 0], [Num 1, Num 1], [Num 0, Num 0]]],
              properties = [(''name'', PStr ''Coverage area'')]\<rparr>],
          [[Num 0, Num 0], [Num 1, Num 0], [Num 1, Num 1], [Num 0, Num 0]]) \<and>
   [[Num 0, Num 0], [Num 1, Num 0], [Num 1, Num 1], [Num 0, Num 0]] \<noteq>
   [[Num 0, Num 0], [Num 1, Num 0], [Num 1, Num 1]]"
  by (simp add: generate_geojson_polygon_eq clean_coordinates_def)

text \<open>
  C5, amended. \<^verbatim>\<open>generate_geojson_polygon\<close> closes the ring in place: after the call
  the caller's list is the closed list, of which the emitted ring is the copy rounded to
  six decimals; it is the list that was passed exactly when that list is empty or
  already closed, otherwise the first vertex has been appended to it. The transmitter,
  receiver and link functions return with the parameter list they were passed
  unchanged. (The result of each of the four is a function of the arguments.)
\<close>

theorem arguments_after_call:
  "(\<exists>fc after ring.
      generate_geojson_polygon cs = Inr (fc, after) \<and>
      fc = FeatureCollection
             [\<lparr>geometry = Polygon [ring], properties = [(''name'', PStr ''Coverage area'')]\<rparr>] \<and>
      rounded_ring after ring \<and>
      (after = cs \<longleftrightarrow> cs = [] \<or> hd cs = last cs) \<and>
      (cs \<noteq> [] \<and> hd cs \<noteq> last cs \<longrightarrow> after = cs @ [hd cs])) \<and>
   (\<forall>f after. generate_geojson_point_transmitter p = Inr (f, after) \<longrightarrow> after = p) \<and>
   (\<forall>f after. generate_geojson_point_receiver p number Lb Ep = Inr (f, after) \<longrightarrow> after = p) \<and>
   (\<forall>f after. generate_geojson_line p index Lb Ep = Inr (f, after) \<longrightarrow> after = p)"
proof -
  have "\<exists>fc after ring.
      generate_geojson_polygon cs = Inr (fc, after) \<and>
      fc = FeatureCollection
             [\<lparr>geometry = Polygon [ring], properties = [(''name'', PStr ''Coverage area'')]\<rparr>] \<and>
      rounded_ring after ring \<and>
      (after = cs \<longleftrightarrow> cs = [] \<or> hd cs = last cs) \<and>
      (cs \<noteq> [] \<and> hd cs \<noteq> last cs \<longrightarrow> after = cs @ [hd cs])"
    unfolding generate_geojson_polygon_eq
    using clean_ring_rounded [of cs] clean_ring_rounded [of "cs @ [hd cs]"]
    by auto
  then show ?thesis
    using transmitter_frame [of p] receiver_frame [of p number Lb Ep] line_frame [of p index Lb Ep]
    by blast
qed

lemma example_builders:
  "\<exists>tx rx lk.
     generate_geojson_point_transmitter
       [Num (9 / 10), Num 50, Seq [0, 2], Seq [10, 12], Seq [0, 0], Seq [2, 2], Seq [4, 4],
        Num 57, Num 10, Num 1, Num 9, Num 11, Num (- 13), Num (- 11)] =
       Inr (tx, [Num (9 / 10), Num 50, Seq [0, 2], Seq [10, 12], Seq [0, 0], Seq [2, 2],
                 Seq [4, 4], Num 57, Num 10, Num 1, Num 9, Num 11, Num (- 13), Num (- 11)]) \<and>
     generate_geojson_point_receiver
       [Num (9 / 10), Num 50, Seq [0, 2], Seq [10, 12], Seq [0, 0], Seq [2, 2], Seq [4, 4],
        Num 57, Num 10, Num 1, Num 9, Num 11, Num (- 13), Num (- 11)] 1 120 35 =
       Inr (rx, [Num (9 / 10), Num 50, Seq [0, 2], Seq [10, 12], Seq [0, 0], Seq [2, 2],
                 Seq [4, 4], Num 57, Num 10, Num 1, Num 9, Num 11, Num (- 13), Num (- 11)]) \<and>
     generate_geojson_line
       [Num (9 / 10), Num 50, Seq [0, 2], Seq [10, 12], Seq [0, 0], Seq [2, 2], Seq [4, 4],
        Num 57, Num 10, Num 1, Num 9, Num 11, Num (- 13), Num (- 11)] 0 120 35 =
       Inr (lk, [Num (9 / 10), Num 50, Seq [0, 2], Seq [10, 12], Seq [0, 0], Seq [2, 2],
                 Seq [4, 4], Num 57, Num 10, Num 1, Num 9, Num 11, Num (- 13), Num (- 11)])"
  by (simp add: generate_geojson_point_transmitter_def generate_geojson_point_receiver_def
        generate_geojson_line_def py_index_def subscript_def)

theorem arguments_after_call_witness:
  "(\<exists>fc. generate_geojson_polygon [[Num 0, Num 0], [Num 1, Num 0], [Num 1, Num 1]] =
           Inr (fc, [[Num 0, Num 0], [Num 1, Num 0], [Num 1, Num 1], [Num 0, Num 0]])) \<and>
   (\<exists>tx rx lk.
     generate_geojson_point_transmitter
       [Num (9 / 10), Num 50, Seq [0, 2], Seq [10, 12], Seq [0, 0], Seq [2, 2], Seq [4, 4],
        Num 57, Num 10, Num 1, Num 9, Num 11, Num (- 13), Num (- 11)] =
       Inr (tx, [Num (9 / 10), Num 50, Seq [0, 2], Seq [10, 12], Seq [0, 0], Seq [2, 2],
                 Seq [4, 4], Num 57, Num 10, Num 1, Num 9, Num 11, Num (- 13), Num (- 11)]) \<and>
     generate_geojson_point_receiver
       [Num (9 / 10), Num 50, Seq [0, 2], Seq [10, 12], Seq [0, 0], Seq [2, 2], Seq [4, 4],
        Num 57, Num 10, Num 1, Num 9, Num 11, Num (- 13), Num (- 11)] 1 120 35 =
       Inr (rx, [Num (9 / 10), Num 50, Seq [0, 2], Seq [10, 12], Seq [0, 0], Seq [2, 2],
                 Seq [4, 4], Num 57, Num 10, Num 1, Num 9, Num 11, Num (- 13), Num (- 11)]) \<and>
     generate_geojson_line
       [Num (9 / 10), Num 50, Seq [0, 2], Seq [10, 12], Seq [0, 0], Seq [2, 2], Seq [4, 4],
        Num 57, Num 10, Num 1, Num 9, Num 11, Num (- 13), Num (- 11)] 0 120 35 =
       Inr (lk, [Num (9 / 10), Num 50, Seq [0, 2], Seq [10, 12], Seq [0, 0], Seq [2, 2],
                 Seq [4, 4], Num 57, Num 10, Num 1, Num 9, Num 11, Num (- 13), Num (- 11)]))"
proof -
  from arguments_after_call [of "[[Num 0, Num 0], [Num 1, Num 0], [Num 1, Num 1]]"]
  have "\<exists>fc. generate_geojson_polygon [[Num 0, Num 0], [Num 1, Num 0], [Num 1, Num 1]] =
           Inr (fc, [[Num 0, Num 0], [Num 1, Num 0], [Num 1, Num 1], [Num 0, Num 0]])"
    by (simp add: generate_geojson_polygon_eq)
  with example_builders show ?thesis
    by (rule conjI [rotated])
qed

lemma example_max_distance: "max_distance example_plp [2, 5, 3] 0 = Inr 5"
  by (simp add: example_plp_def py_index_def subscript_def)

lemma example_d_tag: "d_tag_of 5 = ''5p0km''"
  by (simp add: d_tag_of_def replace_dot_p_def format_1f_def round_half_even_def
        str_nat.simps digit_char_def Let_def)

lemma example_ts: "strftime_Ymd_HMS example_now = ''20260105_130459''"
  by (simp add: strftime_Ymd_HMS_def example_now_def pad2_def str_nat.simps digit_char_def)

lemma example_main:
  "\<exists>out. main example_plp (Some example_loss) example_now [2, 5, 3] = Inr out \<and>
     points_path out = ''points_5p0km_20260105_130459.geojson'' \<and>
     lines_path out = ''lines_5p0km_20260105_130459.geojson'' \<and>
     polygon_path out = ''polygon_5p0km_20260105_130459.geojson''"
  by (simp add: main_def example_run example_max_distance example_d_tag example_ts
        generate_geojson_polygon_eq Let_def
        del: max_distance.simps process_profiles.simps)

text \<open>
  C6. In every batch run over at least one profile that completes, the points
  collection is one transmitter feature, built from the first profile, followed by one
  receiver feature per profile, named Receiver_1 to Receiver_N in processing order, and
  no other feature is named Transmitter; the lines collection is one link feature per
  profile, named Link_1 to Link_N; and the ring coordinate list holds the N receiver
  (lon, lat) pairs (entries 13 and 11 of the parameter lists) in processing order.
\<close>

theorem batch_features:
  assumes "main plp (Some loss) now profiles = Inr out" and "profiles \<noteq> []"
  shows "\<exists>st. process_profiles plp loss 0 profiles empty_batch = Inr st \<and>
           points_fc out = FeatureCollection (points st) \<and>
           lines_fc out = FeatureCollection (lines st) \<and>
           length (points st) = length profiles + 1 \<and>
           (\<exists>p. plp (hd profiles) = Inr p \<and>
                generate_geojson_point_transmitter p = Inr (points st ! 0, p)) \<and>
           feature_name (points st ! 0) = Some (PStr ''Transmitter'') \<and>
           length (filter (\<lambda>f. feature_name f = Some (PStr ''Transmitter'')) (points st)) = 1 \<and>
           length (lines st) = length profiles \<and>
           length (polygon_coords st) = length profiles \<and>
           (\<forall>i<length profiles.
              emitted plp loss i (profiles ! i)
                (points st ! (i + 1)) (lines st ! i) (polygon_coords st ! i) \<and>
              feature_name (points st ! (i + 1)) = Some (PStr (''Receiver_'' @ str_nat (i + 1))) \<and>
              feature_name (lines st ! i) = Some (PStr (''Link_'' @ str_nat (i + 1))))"
proof -
  from assms(2) obtain profile rest where profiles: "profiles = profile # rest"
    by (cases profiles) auto
  from main_Inr [OF assms(1)] obtain st where
    run: "process_profiles plp loss 0 profiles empty_batch = Inr st" and
    fcs: "points_fc out = FeatureCollection (points st)"
         "lines_fc out = FeatureCollection (lines st)"
    by blast
  from process_profiles_start [OF run [unfolded profiles]] obtain p tx rxs lks cds where
    p: "plp profile = Inr p" "generate_geojson_point_transmitter p = Inr (tx, p)" and
    len: "length rxs = Suc (length rest)" "length lks = Suc (length rest)"
         "length cds = Suc (length rest)" and
    st: "points st = tx # rxs" "lines st = lks" "polygon_coords st = cds" and
    em: "\<forall>i<Suc (length rest).
           emitted plp loss i ((profile # rest) ! i) (rxs ! i) (lks ! i) (cds ! i)"
    by blast
  have rx_names: "feature_name f \<noteq> Some (PStr ''Transmitter'')" if "f \<in> set rxs" for f
  proof -
    from that obtain i where i: "i < length rxs" "f = rxs ! i"
      by (auto simp: in_set_conv_nth)
    with em len have "emitted plp loss i ((profile # rest) ! i) f (lks ! i) (cds ! i)"
      by simp
    from emitted_names(1) [OF this] show ?thesis by simp
  qed
  then have no_tx: "filter (\<lambda>f. feature_name f = Some (PStr ''Transmitter'')) rxs = []"
    by (simp add: filter_empty_conv)
  have tx_name: "feature_name tx = Some (PStr ''Transmitter'')"
    using p(2) by (rule transmitter_name)
  have each: "emitted plp loss i (profiles ! i)
                (points st ! (i + 1)) (lines st ! i) (polygon_coords st ! i) \<and>
              feature_name (points st ! (i + 1)) = Some (PStr (''Receiver_'' @ str_nat (i + 1))) \<and>
              feature_name (lines st ! i) = Some (PStr (''Link_'' @ str_nat (i + 1)))"
    if "i < length profiles" for i
  proof -
    from that em have e: "emitted plp loss i (profiles ! i) (rxs ! i) (lks ! i) (cds ! i)"
      by (simp add: profiles)
    from emitted_names [OF e] e show ?thesis
      by (simp add: st)
  qed
  show ?thesis
    using run fcs p tx_name no_tx len each
    by (intro exI [of _ st]) (simp add: st profiles)
qed

theorem batch_features_witness:
  "\<exists>out st.
     main example_plp (Some example_loss) example_now [2, 5, 3] = Inr out \<and>
     process_profiles example_plp example_loss 0 [2, 5, 3] empty_batch = Inr st \<and>
     points_fc out = FeatureCollection (points st) \<and>
     lines_fc out = FeatureCollection (lines st) \<and>
     map feature_name (points st) =
       [Some (PStr ''Transmitter''), Some (PStr ''Receiver_1''),
        Some (PStr ''Receiver_2''), Some (PStr ''Receiver_3'')] \<and>
     map feature_name (lines st) =
       [Some (PStr ''Link_1''), Some (PStr ''Link_2''), Some (PStr ''Link_3'')] \<and>
     polygon_coords st = [[Num (- 11), Num 11], [Num (- 8), Num 14], [Num (- 10), Num 12]]"
proof -
  from example_main obtain out where
    out: "main example_plp (Some example_loss) example_now [2, 5, 3] = Inr out"
    by blast
  have "[2 :: real, 5, 3] \<noteq> []" by simp
  from batch_features [OF out this] obtain st where
    run: "process_profiles example_plp example_loss 0 [2, 5, 3] empty_batch = Inr st" and
    fcs: "points_fc out = FeatureCollection (points st)"
         "lines_fc out = FeatureCollection (lines st)"
    by blast
  from run [unfolded example_run] have names:
    "map feature_name (points st) =
       [Some (PStr ''Transmitter''), Some (PStr ''Receiver_1''),
        Some (PStr ''Receiver_2''), Some (PStr ''Receiver_3'')]"
    "map feature_name (lines st) =
       [Some (PStr ''Link_1''), Some (PStr ''Link_2''), Some (PStr ''Link_3'')]"
    "polygon_coords st = [[Num (- 11), Num 11], [Num (- 8), Num 14], [Num (- 10), Num 12]]"
    by (auto simp: feature_name_def)
  show ?thesis
    by (intro exI [of _ out] exI [of _ st] conjI) (fact out run fcs names)+
qed


lemma py_round_receiver:
  "py_round (- (1663 / 128)) 6 = - 12992188 / 1000000"
  "py_round (1153 / 128) 6 = 9007812 / 1000000"
  by (simp_all add: py_round_def round_half_even_def Let_def)

lemma example_single_run:
  "\<exists>out. main example_plp (Some example_loss) example_now [1 / 128] = Inr out \<and>
     polygon_fc out =
       FeatureCollection
         [\<lparr>geometry = Polygon [[[Num (- 12992188 / 1000000), Num (9007812 / 1000000)]]],
           properties = [(''name'', PStr ''Coverage area'')]\<rparr>]"
  by (simp add: main_def loop_body_def example_plp_def example_loss_def empty_batch_def
        generate_geojson_point_transmitter_def generate_geojson_point_receiver_def
        generate_geojson_line_def py_index_def subscript_def generate_geojson_polygon_eq
        clean_coordinates_def py_round_receiver Let_def)


section \<open>File names of a run\<close>

lemma digit_char_digit: "d < 10 \<Longrightarrow> digit_char d \<in> set ''0123456789''"
  unfolding digit_char_def by (rule nth_mem) simp

lemma digit_char_not_dot: "d < 10 \<Longrightarrow> CHR ''.'' \<notin> set [digit_char d]"
  using digit_char_digit [of d] by auto

lemma str_nat_small: "n < 10 \<Longrightarrow> str_nat n = [digit_char n]"
  by (subst str_nat.simps) simp

lemma str_nat_large: "10 \<le> n \<Longrightarrow> str_nat n = str_nat (n div 10) @ [digit_char (n mod 10)]"
  by (subst str_nat.simps) simp

lemma str_nat_digits: "set (str_nat n) \<subseteq> set ''0123456789''"
proof (induction n rule: str_nat.induct)
  case (1 n)
  show ?case
  proof (cases "n < 10")
    case True
    then show ?thesis
      using digit_char_digit [of n] by (simp add: str_nat_small)
  next
    case False
    with "1" have "set (str_nat (n div 10)) \<subseteq> set ''0123456789''"
      by simp
    moreover have "digit_char (n mod 10) \<in> set ''0123456789''"
      by (rule digit_char_digit) simp
    ultimately show ?thesis
      using False by (simp add: str_nat_large)
  qed
qed

lemma length_str_nat_2: "10 \<le> n \<Longrightarrow> n < 100 \<Longrightarrow> length (str_nat n) = 2"
  by (simp add: str_nat_large str_nat_small)

lemma length_str_nat_4: "1000 \<le> n \<Longrightarrow> n < 10000 \<Longrightarrow> length (str_nat n) = 4"
proof -
  assume n: "1000 \<le> n" "n < 10000"
  then have a: "10 \<le> n" "10 \<le> n div 10" "10 \<le> n div 10 div 10" "n div 10 div 10 div 10 < 10"
    by auto
  show ?thesis
    by (simp add: str_nat_large [OF a(1)] str_nat_large [OF a(2)] str_nat_large [OF a(3)]
          str_nat_small [OF a(4)])
qed

lemma pad2_form: "n < 100 \<Longrightarrow> length (pad2 n) = 2 \<and> set (pad2 n) \<subseteq> set ''0123456789''"
proof (cases "n < 10")
  case True
  then have "pad2 n = [CHR ''0'', digit_char n]"
    by (simp add: pad2_def str_nat_small)
  with digit_char_digit [OF True] show ?thesis
    by simp
next
  case False
  assume "n < 100"
  with False have "pad2 n = str_nat n" "length (str_nat n) = 2"
    by (simp_all add: pad2_def length_str_nat_2)
  with str_nat_digits [of n] show ?thesis
    by simp
qed

lemma replace_dot_p_digits: "CHR ''.'' \<notin> set s \<Longrightarrow> replace_dot_p s = s"
  by (induction s) (auto simp: replace_dot_p_def)

lemma replace_dot_p_append: "replace_dot_p (s @ t) = replace_dot_p s @ replace_dot_p t"
  by (simp add: replace_dot_p_def)

lemma str_nat_no_dot: "CHR ''.'' \<notin> set (str_nat n)"
  using str_nat_digits [of n] by auto

lemma replace_dot_p_str_nat: "replace_dot_p (str_nat n) = str_nat n"
  by (rule replace_dot_p_digits [OF str_nat_no_dot])

lemma replace_dot_p_Nil: "replace_dot_p [] = []"
  by (simp add: replace_dot_p_def)

lemma replace_dot_p_Cons:
  "replace_dot_p (c # s) = (if c = CHR ''.'' then CHR ''p'' else c) # replace_dot_p s"
  by (simp add: replace_dot_p_def)

lemma d_tag_of_nonneg:
  assumes "0 \<le> x"
  shows "d_tag_of x =
           str_nat (nat (round_half_even (x * 10)) div 10) @ ''p'' @
           [digit_char (nat (round_half_even (x * 10)) mod 10)] @ ''km''"
proof -
  have "CHR ''.'' \<notin> set [digit_char (nat (round_half_even (x * 10)) mod 10)]"
    by (rule digit_char_not_dot) simp
  then have "digit_char (nat (round_half_even (x * 10)) mod 10) \<noteq> CHR ''.''"
    by auto
  then show ?thesis
    using assms
    by (simp add: d_tag_of_def format_1f_def Let_def replace_dot_p_append
          replace_dot_p_str_nat replace_dot_p_Cons replace_dot_p_Nil)
qed

lemma strftime_form:
  assumes "valid_time t"
  obtains Y M D h mi s where
    "strftime_Ymd_HMS t = Y @ M @ D @ ''_'' @ h @ mi @ s"
    "length Y = 4" "length M = 2" "length D = 2" "length h = 2" "length mi = 2" "length s = 2"
    "set (Y @ M @ D @ h @ mi @ s) \<subseteq> set ''0123456789''"
proof -
  define ds where "ds = set ''0123456789''"
  from assms have r: "1000 \<le> tm_year t" "tm_year t < 10000" "tm_mon t < 100" "tm_mday t < 100"
    "tm_hour t < 100" "tm_min t < 100" "tm_sec t < 100"
    by (auto simp: valid_time_def)
  have Y: "length (str_nat (tm_year t)) = 4" "set (str_nat (tm_year t)) \<subseteq> ds"
    using length_str_nat_4 [OF r(1,2)] str_nat_digits [of "tm_year t"]
    by (simp_all only: ds_def)
  have M: "length (pad2 (tm_mon t)) = 2" "set (pad2 (tm_mon t)) \<subseteq> ds"
    using pad2_form [OF r(3)] by (simp_all only: ds_def)
  have D: "length (pad2 (tm_mday t)) = 2" "set (pad2 (tm_mday t)) \<subseteq> ds"
    using pad2_form [OF r(4)] by (simp_all only: ds_def)
  have h: "length (pad2 (tm_hour t)) = 2" "set (pad2 (tm_hour t)) \<subseteq> ds"
    using pad2_form [OF r(5)] by (simp_all only: ds_def)
  have mi: "length (pad2 (tm_min t)) = 2" "set (pad2 (tm_min t)) \<subseteq> ds"
    using pad2_form [OF r(6)] by (simp_all only: ds_def)
  have s: "length (pad2 (tm_sec t)) = 2" "set (pad2 (tm_sec t)) \<subseteq> ds"
    using pad2_form [OF r(7)] by (simp_all only: ds_def)
  have "set (str_nat (tm_year t) @ pad2 (tm_mon t) @ pad2 (tm_mday t) @
             pad2 (tm_hour t) @ pad2 (tm_min t) @ pad2 (tm_sec t)) \<subseteq> ds"
    using Y(2) M(2) D(2) h(2) mi(2) s(2) by (simp only: set_append Un_subset_iff)
  then have all: "set (str_nat (tm_year t) @ pad2 (tm_mon t) @ pad2 (tm_mday t) @
             pad2 (tm_hour t) @ pad2 (tm_min t) @ pad2 (tm_sec t)) \<subseteq> set ''0123456789''"
    by (simp only: ds_def)
  have eq: "strftime_Ymd_HMS t =
          str_nat (tm_year t) @ pad2 (tm_mon t) @ pad2 (tm_mday t) @ ''_'' @
          pad2 (tm_hour t) @ pad2 (tm_min t) @ pad2 (tm_sec t)"
    by (simp only: strftime_Ymd_HMS_def)
  show ?thesis
    by (rule that [OF eq Y(1) M(1) D(1) h(1) mi(1) s(1) all])
qed

lemma Max_insert_max:
  fixes a b :: real
  assumes "finite A"
  shows "Max (insert (max a b) A) = Max (insert a (insert b A))"
proof (cases "A = {}")
  case True
  then show ?thesis by (simp add: max.commute)
next
  case False
  with assms show ?thesis by (simp add: max.assoc)
qed

lemma max_distance_step:
  "max_distance plp (profile # rest) m =
     bnd (last_distance plp profile) (\<lambda>d. max_distance plp rest (max m d))"
  by (cases "plp profile") (simp_all add: last_distance_def bnd_def split: sum.splits)

lemma max_distance_value:
  "map (last_distance plp) profiles = map Inr ds \<Longrightarrow>
   max_distance plp profiles m = Inr (Max (set (m # ds)))"
proof (induction profiles arbitrary: ds m)
  case Nil
  then show ?case by simp
next
  case (Cons profile rest)
  then obtain d ds' where ds: "ds = d # ds'" "last_distance plp profile = Inr d"
    "map (last_distance plp) rest = map Inr ds'"
    by (cases ds) auto
  from Cons.IH [OF ds(3)] have "max_distance plp rest (max m d) = Inr (Max (set (max m d # ds')))"
    by simp
  then show ?case
    using ds(1,2) Max_insert_max [of "set ds'" m d]
    by (simp add: max_distance_step del: max_distance.simps)
qed

lemma max_distance_Inr:
  "max_distance plp profiles m = Inr r \<Longrightarrow> \<exists>ds. map (last_distance plp) profiles = map Inr ds"
proof (induction profiles arbitrary: m)
  case Nil
  then show ?case by simp
next
  case (Cons profile rest)
  from Cons.prems obtain d where d: "last_distance plp profile = Inr d"
    "max_distance plp rest (max m d) = Inr r"
    by (auto simp: max_distance_step bnd_eq_Inr simp del: max_distance.simps)
  from Cons.IH [OF d(2)] obtain ds where "map (last_distance plp) rest = map Inr ds" ..
  with d(1) have "map (last_distance plp) (profile # rest) = map Inr (d # ds)"
    by simp
  then show ?case ..
qed

lemma Max_floor_some:
  fixes ds :: "real list"
  assumes "d \<in> set ds" and "0 \<le> d"
  shows "Max (set (0 # ds)) = Max (set ds)"
proof -
  from assms(1) have ne: "set ds \<noteq> {}"
    by auto
  from assms have "0 \<le> Max (set ds)"
    by (meson List.finite_set Max_ge order_trans)
  with ne show ?thesis
    by (simp add: max_def)
qed

lemma Max_floor_none:
  fixes ds :: "real list"
  assumes "\<forall>d\<in>set ds. d \<le> 0"
  shows "Max (set (0 # ds)) = 0"
  using assms by (intro Max_eqI) auto

lemma Max_floor_nonneg:
  fixes ds :: "real list"
  shows "0 \<le> Max (set (0 # ds))"
  by (rule Max_ge) simp_all

lemma tag_rounds_to:
  assumes "0 \<le> m"
  shows "rounds_to m 1 (real (nat (round_half_even (m * 10))) / 10)"
proof -
  from assms have "0 \<le> round_half_even (m * 10)"
    by (intro round_half_even_nonneg) simp
  then have "real (nat (round_half_even (m * 10))) = of_int (round_half_even (m * 10))"
    by simp
  then show ?thesis
    unfolding rounds_to_def
    using round_half_even_nearest [of "m * 10"]
    by (intro exI [of _ "round_half_even (m * 10)"]) simp
qed

lemma example_last_distance: "last_distance example_plp d = Inr d"
  by (simp add: last_distance_def example_plp_def py_index_def subscript_def)

lemma example_loop_total:
  "\<exists>st'. process_profiles example_plp example_loss k ds st = Inr st'"
proof (induction ds arbitrary: k st)
  case Nil
  show ?case by simp
next
  case (Cons d ds)
  have "\<exists>st1. loop_body example_plp example_loss k d st = Inr st1"
    by (cases "k = 0")
       (simp_all add: loop_body_def example_plp_def example_loss_def
          generate_geojson_point_transmitter_def generate_geojson_point_receiver_def
          generate_geojson_line_def py_index_def subscript_def)
  then obtain st1 where "loop_body example_plp example_loss k d st = Inr st1" ..
  with Cons [of "k + 1" st1] show ?case
    by simp
qed

lemma example_max_distance_general:
  "max_distance example_plp ds 0 = Inr (Max (set (0 # ds)))"
  by (rule max_distance_value) (simp add: example_last_distance)

text \<open>The example run completes on every list of profiles, and names its files after
  the larger of zero and the largest last distance.\<close>

lemma example_main_general:
  "\<exists>out. main example_plp (Some example_loss) example_now ds = Inr out \<and>
     points_path out =
       ''points_'' @ d_tag_of (Max (set (0 # ds))) @ ''_20260105_130459.geojson''"
proof -
  from example_loop_total obtain st where
    "process_profiles example_plp example_loss 0 ds empty_batch = Inr st" ..
  then show ?thesis
    by (simp add: main_def example_max_distance_general example_ts generate_geojson_polygon_eq
          Let_def del: max_distance.simps process_profiles.simps)
qed

lemma example_tags:
  "d_tag_of 0 = ''0p0km''" "d_tag_of (- 1) = ''-1p0km''"
  "d_tag_of (26 / 100) = ''0p3km''" "d_tag_of (1 / 4) = ''0p2km''"
  by (simp_all add: d_tag_of_def replace_dot_p_def format_1f_def round_half_even_def
        str_nat.simps digit_char_def Let_def)

text \<open>
  C7, as the claim states it, fails: the tag is not the maximum of the last distances
  when all of them are negative, since the maximum is folded from \<open>0.0\<close>. A run over two
  profiles whose distance sequences end at \<open>-1\<close> and \<open>-2\<close> names its files with the tag
  \<open>0p0km\<close>, while their maximum \<open>-1\<close> formats to \<open>-1p0km\<close>.
\<close>

theorem negative_distances_tag:
  "map_sum id points_path (main example_plp (Some example_loss) example_now [- 1, - 2]) =
     Inr ''points_0p0km_20260105_130459.geojson'' \<and>
   map (last_distance example_plp) [- 1, - 2] = [Inr (- 1), Inr (- 2)] \<and>
   Max (set [- 1, - 2 :: real]) = - 1 \<and>
   d_tag_of (Max (set [- 1, - 2])) = ''-1p0km''"
proof -
  from example_main_general [of "[- 1, - 2]"] obtain out where
    "main example_plp (Some example_loss) example_now [- 1, - 2] = Inr out"
    "points_path out =
       ''points_'' @ d_tag_of (Max (set [0, - 1, - 2])) @ ''_20260105_130459.geojson''"
    by blast
  moreover have "Max (set [0, - 1, - 2 :: real]) = 0" "Max (set [- 1, - 2 :: real]) = - 1"
    by simp_all
  ultimately show ?thesis
    by (simp add: example_tags example_last_distance)
qed

text \<open>
  C7, amended. In every completed batch run the three files are named points_, lines_
  and polygon_ followed by the same tag, an underscore, the same timestamp and the
  extension .geojson. The tag is written from the larger of zero and the largest last
  element of the profiles' distance sequences (their maximum when one of them is not
  negative, zero when there is no profile or all are negative): that number rounded to
  one decimal place, ties to the even digit, with the letter p for the decimal point
  and followed by km. For a clock reading with a four-digit year the timestamp is four
  digits for the year, two each for month and day, an underscore, and two digits each
  for hour, minute and second.
\<close>

theorem output_file_names:
  assumes "main plp (Some loss) now profiles = Inr out"
  shows "\<exists>ds m t tag ts.
           map (last_distance plp) profiles = map Inr ds \<and>
           m = Max (set (0 # ds)) \<and>
           ((\<exists>d\<in>set ds. 0 \<le> d) \<longrightarrow> m = Max (set ds)) \<and>
           ((\<forall>d\<in>set ds. d \<le> 0) \<longrightarrow> m = 0) \<and>
           rounds_to m 1 (real t / 10) \<and>
           tag = str_nat (t div 10) @ ''p'' @ [digit_char (t mod 10)] @ ''km'' \<and>
           ts = strftime_Ymd_HMS now \<and>
           points_path out = ''points_'' @ tag @ ''_'' @ ts @ ''.geojson'' \<and>
           lines_path out = ''lines_'' @ tag @ ''_'' @ ts @ ''.geojson'' \<and>
           polygon_path out = ''polygon_'' @ tag @ ''_'' @ ts @ ''.geojson'' \<and>
           (valid_time now \<longrightarrow>
              (\<exists>Y M D h mi s.
                 ts = Y @ M @ D @ ''_'' @ h @ mi @ s \<and>
                 length Y = 4 \<and> length M = 2 \<and> length D = 2 \<and>
                 length h = 2 \<and> length mi = 2 \<and> length s = 2 \<and>
                 set (Y @ M @ D @ h @ mi @ s) \<subseteq> set ''0123456789''))"
proof -
  from main_Inr [OF assms(1)] obtain max_d_km where
    m: "max_distance plp profiles 0 = Inr max_d_km" and
    paths:
      "points_path out =
         ''points_'' @ d_tag_of max_d_km @ ''_'' @ strftime_Ymd_HMS now @ ''.geojson''"
      "lines_path out =
         ''lines_'' @ d_tag_of max_d_km @ ''_'' @ strftime_Ymd_HMS now @ ''.geojson''"
      "polygon_path out =
         ''polygon_'' @ d_tag_of max_d_km @ ''_'' @ strftime_Ymd_HMS now @ ''.geojson''"
    by blast
  from max_distance_Inr [OF m] obtain ds where
    ds: "map (last_distance plp) profiles = map Inr ds" ..
  define mx where "mx = Max (set (0 # ds))"
  define t where "t = nat (round_half_even (mx * 10))"
  from max_distance_value [OF ds, of 0] m have floor: "max_d_km = mx"
    by (simp add: mx_def)
  have nonneg: "0 \<le> mx"
    unfolding mx_def by (rule Max_floor_nonneg)
  have some: "(\<exists>d\<in>set ds. 0 \<le> d) \<longrightarrow> mx = Max (set ds)"
    unfolding mx_def using Max_floor_some [of _ ds] by blast
  have none: "(\<forall>d\<in>set ds. d \<le> 0) \<longrightarrow> mx = 0"
    unfolding mx_def using Max_floor_none [of ds] by blast
  have r: "rounds_to mx 1 (real t / 10)"
    unfolding t_def by (rule tag_rounds_to [OF nonneg])
  have tag: "d_tag_of mx = str_nat (t div 10) @ ''p'' @ [digit_char (t mod 10)] @ ''km''"
    unfolding t_def by (rule d_tag_of_nonneg [OF nonneg])
  note names = paths [unfolded floor]
  have form: "valid_time now \<longrightarrow>
              (\<exists>Y M D h mi s.
                 strftime_Ymd_HMS now = Y @ M @ D @ ''_'' @ h @ mi @ s \<and>
                 length Y = 4 \<and> length M = 2 \<and> length D = 2 \<and>
                 length h = 2 \<and> length mi = 2 \<and> length s = 2 \<and>
                 set (Y @ M @ D @ h @ mi @ s) \<subseteq> set ''0123456789'')"
  proof
    assume v: "valid_time now"
    obtain Y M D h mi s where
      ts: "strftime_Ymd_HMS now = Y @ M @ D @ ''_'' @ h @ mi @ s"
        "length Y = 4" "length M = 2" "length D = 2" "length h = 2" "length mi = 2"
        "length s = 2"
        "set (Y @ M @ D @ h @ mi @ s) \<subseteq> set ''0123456789''"
      by (rule strftime_form [OF v])
    show "\<exists>Y M D h mi s.
                 strftime_Ymd_HMS now = Y @ M @ D @ ''_'' @ h @ mi @ s \<and>
                 length Y = 4 \<and> length M = 2 \<and> length D = 2 \<and>
                 length h = 2 \<and> length mi = 2 \<and> length s = 2 \<and>
                 set (Y @ M @ D @ h @ mi @ s) \<subseteq> set ''0123456789''"
      apply (rule exI [of _ Y], rule exI [of _ M], rule exI [of _ D])
      apply (rule exI [of _ h], rule exI [of _ mi], rule exI [of _ s])
      apply (intro conjI)
             apply (rule ts(1))
            apply (rule ts(2))
           apply (rule ts(3))
          apply (rule ts(4))
         apply (rule ts(5))
        apply (rule ts(6))
       apply (rule ts(7))
      apply (rule ts(8))
      done
  qed
  show ?thesis
    apply (rule exI [of _ ds])
    apply (rule exI [of _ mx])
    apply (rule exI [of _ t])
    apply (rule exI [of _ "d_tag_of mx"])
    apply (rule exI [of _ "strftime_Ymd_HMS now"])
    apply (intro conjI)
              apply (rule ds)
             apply (rule mx_def)
            apply (rule some)
           apply (rule none)
          apply (rule r)
         apply (rule tag)
        apply (rule refl)
       apply (rule names(1))
      apply (rule names(2))
     apply (rule names(3))
    apply (rule form)
    done
qed

text \<open>What the rounding of the theorem determines in three runs: 5 is written 5p0, 0.26
  is written 0p3, and 0.25, halfway between 0.2 and 0.3, is written 0p2.\<close>

lemma rounds_to_examples:
  fixes t :: nat
  shows "rounds_to 5 1 (real t / 10) \<Longrightarrow> t = 50"
    and "rounds_to (26 / 100) 1 (real t / 10) \<Longrightarrow> t = 3"
    and "rounds_to (1 / 4) 1 (real t / 10) \<Longrightarrow> t = 2"
proof -
  assume "rounds_to 5 1 (real t / 10)"
  then obtain k :: int where "real t = of_int k" "\<bar>50 - real_of_int k\<bar> \<le> 1 / 2"
    by (auto simp: rounds_to_def)
  then have "int t = k" "k = 50"
    by linarith+
  then show "t = 50"
    by simp
next
  assume "rounds_to (26 / 100) 1 (real t / 10)"
  then obtain k :: int where "real t = of_int k" "\<bar>26 / 10 - real_of_int k\<bar> \<le> 1 / 2"
    by (auto simp: rounds_to_def)
  then have "int t = k" "k = 3"
    by linarith+
  then show "t = 3"
    by simp
next
  assume "rounds_to (1 / 4) 1 (real t / 10)"
  then obtain k :: int where k: "real t = of_int k" "\<bar>5 / 2 - real_of_int k\<bar> \<le> 1 / 2"
    "\<bar>5 / 2 - real_of_int k\<bar> = 1 / 2 \<longrightarrow> even k"
    by (auto simp: rounds_to_def)
  then have "k = 2 \<or> k = 3"
    by linarith
  with k(3) have "k = 2"
    by auto
  moreover from k(1) have "int t = k"
    by linarith
  ultimately show "t = 2"
    by simp
qed

lemma example_file_name:
  assumes "main example_plp (Some example_loss) example_now profiles = Inr out"
    and "Max (set (0 # profiles)) = mx"
    and "\<And>t :: nat. rounds_to mx 1 (real t / 10) \<Longrightarrow> t = t0"
    and th: "\<exists>ds m t tag ts.
           map (last_distance example_plp) profiles = map Inr ds \<and>
           m = Max (set (0 # ds)) \<and>
           ((\<exists>d\<in>set ds. 0 \<le> d) \<longrightarrow> m = Max (set ds)) \<and>
           ((\<forall>d\<in>set ds. d \<le> 0) \<longrightarrow> m = 0) \<and>
           rounds_to m 1 (real t / 10) \<and>
           tag = str_nat (t div 10) @ ''p'' @ [digit_char (t mod 10)] @ ''km'' \<and>
           ts = strftime_Ymd_HMS example_now \<and>
           points_path out = ''points_'' @ tag @ ''_'' @ ts @ ''.geojson'' \<and>
           lines_path out = ''lines_'' @ tag @ ''_'' @ ts @ ''.geojson'' \<and>
           polygon_path out = ''polygon_'' @ tag @ ''_'' @ ts @ ''.geojson'' \<and>
           (valid_time example_now \<longrightarrow>
              (\<exists>Y M D h mi s.
                 ts = Y @ M @ D @ ''_'' @ h @ mi @ s \<and>
                 length Y = 4 \<and> length M = 2 \<and> length D = 2 \<and>
                 length h = 2 \<and> length mi = 2 \<and> length s = 2 \<and>
                 set (Y @ M @ D @ h @ mi @ s) \<subseteq> set ''0123456789''))"
  shows "points_path out =
           ''points_'' @ str_nat (t0 div 10) @ ''p'' @ [digit_char (t0 mod 10)] @ ''km'' @
           ''_20260105_130459.geojson''"
proof -
  from th obtain ds m t tag ts where
    ds: "map (last_distance example_plp) profiles = map Inr ds" and
    m: "m = Max (set (0 # ds))" and
    r: "rounds_to m 1 (real t / 10)" and
    tag: "tag = str_nat (t div 10) @ ''p'' @ [digit_char (t mod 10)] @ ''km''" and
    ts: "ts = strftime_Ymd_HMS example_now" and
    name: "points_path out = ''points_'' @ tag @ ''_'' @ ts @ ''.geojson''"
    by (elim exE conjE)
  have "map (last_distance example_plp) profiles = map Inr profiles"
    by (simp add: example_last_distance)
  with ds have "map Inr ds = (map Inr profiles :: (py_error + real) list)"
    by simp
  then have "ds = profiles"
    by (simp add: inj_map_eq_map)
  with r m assms(2) have "rounds_to mx 1 (real t / 10)"
    by simp
  from assms(3) [OF this] have "t = t0" .
  with name tag ts show ?thesis
    by (simp add: example_ts)
qed

theorem output_file_names_witness:
  "(\<exists>out. main example_plp (Some example_loss) example_now [2, 5, 3] = Inr out \<and>
      points_path out = ''points_5p0km_20260105_130459.geojson'' \<and>
      lines_path out = ''lines_5p0km_20260105_130459.geojson'' \<and>
      polygon_path out = ''polygon_5p0km_20260105_130459.geojson'') \<and>
   (\<exists>out. main example_plp (Some example_loss) example_now [26 / 100] = Inr out \<and>
      points_path out = ''points_0p3km_20260105_130459.geojson'') \<and>
   (\<exists>out. main example_plp (Some example_loss) example_now [1 / 4] = Inr out \<and>
      points_path out = ''points_0p2km_20260105_130459.geojson'')"
proof -
  from example_main obtain o1 where
    o1: "main example_plp (Some example_loss) example_now [2, 5, 3] = Inr o1"
      "lines_path o1 = ''lines_5p0km_20260105_130459.geojson''"
      "polygon_path o1 = ''polygon_5p0km_20260105_130459.geojson''"
    by blast
  from example_main_general [of "[26 / 100]"] obtain o2 where
    o2: "main example_plp (Some example_loss) example_now [26 / 100] = Inr o2"
    by blast
  from example_main_general [of "[1 / 4]"] obtain o3 where
    o3: "main example_plp (Some example_loss) example_now [1 / 4] = Inr o3"
    by blast
  have m: "Max (set [0, 2, 5, 3 :: real]) = 5" "Max (set [0, 26 / 100 :: real]) = 26 / 100"
    "Max (set [0, 1 / 4 :: real]) = 1 / 4"
    by simp_all
  have n1: "points_path o1 = ''points_5p0km_20260105_130459.geojson''"
    using example_file_name [OF o1(1) m(1) rounds_to_examples(1) output_file_names [OF o1(1)]]
    by (simp add: str_nat.simps digit_char_def)
  have n2: "points_path o2 = ''points_0p3km_20260105_130459.geojson''"
    using example_file_name [OF o2 m(2) rounds_to_examples(2) output_file_names [OF o2]]
    by (simp add: str_nat.simps digit_char_def)
  have n3: "points_path o3 = ''points_0p2km_20260105_130459.geojson''"
    using example_file_name [OF o3 m(3) rounds_to_examples(3) output_file_names [OF o3]]
    by (simp add: str_nat.simps digit_char_def)
  have a: "\<exists>out. main example_plp (Some example_loss) example_now [2, 5, 3] = Inr out \<and>
      points_path out = ''points_5p0km_20260105_130459.geojson'' \<and>
      lines_path out = ''lines_5p0km_20260105_130459.geojson'' \<and>
      polygon_path out = ''polygon_5p0km_20260105_130459.geojson''"
    by (intro exI [of _ o1] conjI) (fact o1 n1)+
  have b: "\<exists>out. main example_plp (Some example_loss) example_now [26 / 100] = Inr out \<and>
      points_path out = ''points_0p3km_20260105_130459.geojson''"
    by (intro exI [of _ o2] conjI) (fact o2 n2)+
  have c: "\<exists>out. main example_plp (Some example_loss) example_now [1 / 4] = Inr out \<and>
      points_path out = ''points_0p2km_20260105_130459.geojson''"
    by (intro exI [of _ o3] conjI) (fact o3 n3)+
  from a b c show ?thesis
    by (intro conjI)
qed

section \<open>The recomputed maximum distance\<close>

lemma subscript_final: "subscript d (- 1) = Inr x \<Longrightarrow> \<exists>dseq. d = Seq dseq \<and> dseq \<noteq> [] \<and> x = last dseq"
proof (cases d)
  case (Num r)
  assume "subscript d (- 1) = Inr x"
  with Num show ?thesis by (simp add: subscript_def)
next
  case (Seq dseq)
  assume s: "subscript d (- 1) = Inr x"
  with Seq have ne: "dseq \<noteq> []"
    by (auto simp: subscript_def py_index_def)
  with s Seq show ?thesis
    by (simp add: subscript_def py_index_final)
qed

lemma py_index_2: "py_index p 2 = Inr v \<Longrightarrow> 2 < length p \<and> v = p ! 2"
  using py_index_nat_Inr [of p 2 v] by simp

lemma receiver_distance:
  assumes "generate_geojson_point_receiver p n Lb Ep = Inr (rx, p')"
  shows "\<exists>dseq. 2 < length p \<and> p ! 2 = Seq dseq \<and> dseq \<noteq> [] \<and>
           map_of (properties rx) ''distance'' = Some (PVal (Num (last dseq)))"
proof -
  from assms obtain d x where
    d: "py_index p 2 = Inr d" "subscript d (- 1) = Inr x" and
    rx: "map_of (properties rx) ''distance'' = Some (PVal (Num x))"
    by (auto simp: generate_geojson_point_receiver_def bnd_eq_Inr)
  from subscript_final [OF d(2)] py_index_2 [OF d(1)] rx show ?thesis
    by auto
qed

lemma last_distance_eq:
  assumes "plp profile = Inr p" "2 < length p" "p ! 2 = Seq dseq" "dseq \<noteq> []"
  shows "last_distance plp profile = Inr (last dseq)"
proof -
  from assms(2) have "py_index p 2 = Inr (p ! 2)"
    by (simp add: py_index_def)
  with assms(1,3,4) show ?thesis
    by (simp add: last_distance_def subscript_def py_index_final)
qed

lemma map_Inr_exists:
  "(\<forall>x\<in>set xs. \<exists>d. f x = Inr d) \<Longrightarrow> \<exists>ds. map f xs = map Inr ds"
proof (induction xs)
  case Nil
  then show ?case by simp
next
  case (Cons x xs)
  then obtain d ds where "f x = Inr d" "map f xs = map Inr ds"
    by auto
  then have "map f (x # xs) = map Inr (d # ds)"
    by simp
  then show ?case ..
qed

lemma example_negative_run:
  "process_profiles example_plp example_loss 0 [- 1, - 2] empty_batch = Inr st \<Longrightarrow>
   map (\<lambda>f. map_of (properties f) ''distance'') (tl (points st)) =
     [Some (PVal (Num (- 1))), Some (PVal (Num (- 2)))]"
  by (auto simp: loop_body_def example_plp_def example_loss_def empty_batch_def
        generate_geojson_point_transmitter_def generate_geojson_point_receiver_def
        generate_geojson_line_def py_index_def subscript_def)

text \<open>
  C8, as the claim states it, fails: the second loop folds the maximum from \<open>0.0\<close>. For
  two profiles whose distance sequences end at \<open>-1\<close> and \<open>-2\<close> (the distances that the
  first loop stored in the receiver features) the recomputed value is \<open>0\<close>, and the
  maximum of the last distances is \<open>-1\<close>.
\<close>

theorem recomputed_maximum_not_maximum:
  "map_sum id (\<lambda>st. map (\<lambda>f. map_of (properties f) ''distance'') (tl (points st)))
     (process_profiles example_plp example_loss 0 [- 1, - 2] empty_batch) =
     Inr [Some (PVal (Num (- 1))), Some (PVal (Num (- 2)))] \<and>
   map (last_distance example_plp) [- 1, - 2] = [Inr (- 1), Inr (- 2)] \<and>
   max_distance example_plp [- 1, - 2] 0 = Inr 0 \<and>
   Max (set [- 1, - 2 :: real]) = - 1"
proof -
  from example_loop_total obtain st where
    st: "process_profiles example_plp example_loss 0 [- 1, - 2] empty_batch = Inr st" ..
  from example_negative_run [OF st] st have
    "map_sum id (\<lambda>st. map (\<lambda>f. map_of (properties f) ''distance'') (tl (points st)))
       (process_profiles example_plp example_loss 0 [- 1, - 2] empty_batch) =
       Inr [Some (PVal (Num (- 1))), Some (PVal (Num (- 2)))]"
    by (simp del: process_profiles.simps)
  moreover have "max_distance example_plp [- 1, - 2] 0 = Inr 0"
    using example_max_distance_general [of "[- 1, - 2]"] by (simp del: max_distance.simps)
  ultimately show ?thesis
    by (simp add: example_last_distance del: max_distance.simps process_profiles.simps)
qed

text \<open>
  C8, amended. \<open>process_loss_parameters\<close> is a function of the profile. After a
  processing loop that completed, the second loop derives for every profile the
  parameter list that the first loop used (the one whose last distance is the
  \<^verbatim>\<open>distance\<close> property of that profile's receiver feature), it does not raise, and
  its result is the larger of zero and the largest of these last distances. It is their
  maximum exactly when one of them is not negative; it is zero when all of them are
  negative or there is no profile.
\<close>

theorem max_distance_recomputed:
  assumes "process_profiles plp loss 0 profiles empty_batch = Inr st"
  shows "\<exists>ds. length ds = length profiles \<and>
           (\<forall>i<length profiles.
              \<exists>p dseq. plp (profiles ! i) = Inr p \<and> 2 < length p \<and> p ! 2 = Seq dseq \<and>
                dseq \<noteq> [] \<and> ds ! i = last dseq \<and>
                map_of (properties (points st ! (i + 1))) ''distance'' =
                  Some (PVal (Num (ds ! i)))) \<and>
           max_distance plp profiles 0 = Inr (Max (set (0 # ds))) \<and>
           (ds \<noteq> [] \<longrightarrow> max_distance plp profiles 0 = Inr (max 0 (Max (set ds)))) \<and>
           (ds \<noteq> [] \<longrightarrow>
              (max_distance plp profiles 0 = Inr (Max (set ds)) \<longleftrightarrow> (\<exists>d\<in>set ds. 0 \<le> d))) \<and>
           ((\<forall>d\<in>set ds. d < 0) \<longrightarrow> max_distance plp profiles 0 = Inr 0)"
proof -
  have each: "\<exists>p dseq. plp (profiles ! i) = Inr p \<and> 2 < length p \<and> p ! 2 = Seq dseq \<and>
                dseq \<noteq> [] \<and> last_distance plp (profiles ! i) = Inr (last dseq) \<and>
                map_of (properties (points st ! (i + 1))) ''distance'' =
                  Some (PVal (Num (last dseq)))"
    if i: "i < length profiles" for i
  proof -
    from i obtain profile rest where profiles: "profiles = profile # rest"
      by (cases profiles) auto
    from process_profiles_start [OF assms(1) [unfolded profiles]] obtain tx rxs lks cds where
      st: "points st = tx # rxs" and
      em: "\<forall>i<Suc (length rest).
             emitted plp loss i ((profile # rest) ! i) (rxs ! i) (lks ! i) (cds ! i)"
      by blast
    from i em obtain p Lb Ep where
      p: "plp (profiles ! i) = Inr p" and
      rx: "generate_geojson_point_receiver p (i + 1) Lb Ep = Inr (rxs ! i, p)"
      by (auto simp: profiles emitted_def)
    from receiver_distance [OF rx] obtain dseq where
      d: "2 < length p" "p ! 2 = Seq dseq" "dseq \<noteq> []"
         "map_of (properties (rxs ! i)) ''distance'' = Some (PVal (Num (last dseq)))"
      by blast
    from last_distance_eq [of plp "profiles ! i" p dseq, OF p d(1,2,3)] p d show ?thesis
      by (auto simp: st)
  qed
  have "\<forall>x\<in>set profiles. \<exists>d. last_distance plp x = Inr d"
  proof
    fix x assume "x \<in> set profiles"
    then obtain i where "i < length profiles" "x = profiles ! i"
      by (auto simp: in_set_conv_nth)
    with each [of i] show "\<exists>d. last_distance plp x = Inr d"
      by auto
  qed
  from map_Inr_exists [OF this] obtain ds where
    ds: "map (last_distance plp) profiles = map Inr ds" ..
  from arg_cong [OF this, of length] have len: "length ds = length profiles"
    by simp
  have nth: "last_distance plp (profiles ! i) = Inr (ds ! i)" if "i < length profiles" for i
  proof -
    from that have "map (last_distance plp) profiles ! i = last_distance plp (profiles ! i)"
      by simp
    with that len show ?thesis
      by (simp add: ds)
  qed
  have facts: "\<forall>i<length profiles.
              \<exists>p dseq. plp (profiles ! i) = Inr p \<and> 2 < length p \<and> p ! 2 = Seq dseq \<and>
                dseq \<noteq> [] \<and> ds ! i = last dseq \<and>
                map_of (properties (points st ! (i + 1))) ''distance'' =
                  Some (PVal (Num (ds ! i)))"
  proof (intro allI impI)
    fix i assume i: "i < length profiles"
    from each [OF i] nth [OF i]
    show "\<exists>p dseq. plp (profiles ! i) = Inr p \<and> 2 < length p \<and> p ! 2 = Seq dseq \<and>
                dseq \<noteq> [] \<and> ds ! i = last dseq \<and>
                map_of (properties (points st ! (i + 1))) ''distance'' =
                  Some (PVal (Num (ds ! i)))"
      by auto
  qed
  have total: "max_distance plp profiles 0 = Inr (Max (set (0 # ds)))"
    by (rule max_distance_value [OF ds])
  have floor: "Max (set (0 # ds)) = max 0 (Max (set ds))" if "ds \<noteq> []"
    using that by simp
  have nonempty: "ds \<noteq> [] \<longrightarrow> max_distance plp profiles 0 = Inr (max 0 (Max (set ds)))"
    using total floor by simp
  have iff: "ds \<noteq> [] \<longrightarrow>
      (max_distance plp profiles 0 = Inr (Max (set ds)) \<longleftrightarrow> (\<exists>d\<in>set ds. 0 \<le> d))"
  proof (intro impI iffI)
    assume ne: "ds \<noteq> []" and "max_distance plp profiles 0 = Inr (Max (set ds))"
    with total floor have "0 \<le> Max (set ds)"
      by simp
    moreover from ne have "Max (set ds) \<in> set ds"
      by (intro Max_in) simp_all
    ultimately show "\<exists>d\<in>set ds. 0 \<le> d" ..
  next
    assume "\<exists>d\<in>set ds. 0 \<le> d"
    then obtain d where "d \<in> set ds" "0 \<le> d" ..
    from Max_floor_some [OF this] total
    show "max_distance plp profiles 0 = Inr (Max (set ds))"
      by simp
  qed
  have neg: "(\<forall>d\<in>set ds. d < 0) \<longrightarrow> max_distance plp profiles 0 = Inr 0"
  proof
    assume "\<forall>d\<in>set ds. d < 0"
    then have "\<forall>d\<in>set ds. d \<le> 0"
      by auto
    from Max_floor_none [OF this] total show "max_distance plp profiles 0 = Inr 0"
      by simp
  qed
  show ?thesis
    by (intro exI [of _ ds] conjI) (fact len facts total nonempty iff neg)+
qed

theorem max_distance_recomputed_witness:
  "\<exists>st. process_profiles example_plp example_loss 0 [2, 5, 3] empty_batch = Inr st \<and>
     map (\<lambda>f. map_of (properties f) ''distance'') (tl (points st)) =
       [Some (PVal (Num 2)), Some (PVal (Num 5)), Some (PVal (Num 3))] \<and>
     max_distance example_plp [2, 5, 3] 0 = Inr (Max (set [0, 2, 5, 3])) \<and>
     max_distance example_plp [2, 5, 3] 0 = Inr 5"
proof -
  obtain st where st: "process_profiles example_plp example_loss 0 [2, 5, 3] empty_batch = Inr st"
    using example_run by blast
  from max_distance_recomputed [OF st] obtain ds where
    len: "length ds = length [2 :: real, 5, 3]" and
    m: "max_distance example_plp [2, 5, 3] 0 = Inr (Max (set (0 # ds)))"
    by blast
  from st [unfolded example_run] have
    d: "map (\<lambda>f. map_of (properties f) ''distance'') (tl (points st)) =
       [Some (PVal (Num 2)), Some (PVal (Num 5)), Some (PVal (Num 3))]"
    by auto
  have v: "max_distance example_plp [2, 5, 3] 0 = Inr 5"
    by (rule example_max_distance)
  with m have w: "max_distance example_plp [2, 5, 3] 0 = Inr (Max (set [0, 2, 5, 3]))"
    by simp
  show ?thesis
    by (intro exI [of _ st] conjI) (fact st d v w)+
qed

section \<open>Validation of a configuration\<close>

lemma missing_keys_dict:
  "missing_keys h (VDict a) ks = Inr (filter (\<lambda>k. map_of (objs h a) (KStr k) = None) ks)"
  by (induction ks) (simp_all add: py_contains_def)

lemma filter_empty_list_ex: "filter P xs = [] \<longleftrightarrow> \<not> list_ex P xs"
  by (simp add: filter_empty_conv list_ex_iff)

lemma validate_config_missing_sections:
  assumes "list_ex (\<lambda>sec. map_of config (KStr sec) = None) required_sections"
  shows "validate_config h config =
           Inl (ValidationError
                  (MissingSections
                     (filter (\<lambda>sec. map_of config (KStr sec) = None) required_sections)))"
  using assms by (simp add: validate_config_def Let_def filter_empty_list_ex)

text \<open>With every required section present and the two inspected sections
  dictionaries, validation goes on with the keys and the three parameters.\<close>

lemma validate_config_sections_present:
  assumes "\<not> list_ex (\<lambda>sec. map_of config (KStr sec) = None) required_sections"
    and "map_of config (KStr ''TRANSMITTER'') = Some (VDict a)"
    and "map_of config (KStr ''P1812'') = Some (VDict b)"
  shows "validate_config h config =
           (let missing_tx = filter (\<lambda>k. map_of (objs h a) (KStr k) = None) required_tx_keys in
            if missing_tx \<noteq> [] then Inl (ValidationError (MissingTransmitterKeys missing_tx))
            else
              let missing_p1812 = filter (\<lambda>k. map_of (objs h b) (KStr k) = None) required_p1812 in
              if missing_p1812 \<noteq> [] then Inl (ValidationError (MissingP1812Keys missing_p1812))
              else
                bnd (py_getitem h (VDict b) (KStr ''frequency_ghz'')) (\<lambda>frequency_ghz.
                bnd (chained_le (3 / 100) frequency_ghz 6) (\<lambda>ok.
                if \<not> ok then Inl (ValidationError (FrequencyOutsideRange frequency_ghz))
                else
                  bnd (py_getitem h (VDict b) (KStr ''time_percentage'')) (\<lambda>time_percentage.
                  bnd (chained_le 1 time_percentage 50) (\<lambda>ok.
                  if \<not> ok then Inl (ValidationError (TimePercentageOutsideRange time_percentage))
                  else
                    bnd (py_getitem h (VDict b) (KStr ''polarization'')) (\<lambda>polarization.
                    if polarization \<notin> set [VNum 1, VNum 2]
                    then Inl (ValidationError (PolarizationInvalid polarization))
                    else Inr ()))))))"
  using assms
  by (simp add: validate_config_def Let_def filter_empty_list_ex missing_keys_dict)

lemma chained_le_num: "chained_le lo (VNum x) hi = Inr (lo \<le> x \<and> x \<le> hi)"
  by (simp add: chained_le_def num_le_val_def val_le_num_def)

lemma validate_config_typed:
  assumes "typed_config h config"
  shows "(validate_config h config = Inr () \<and> \<not> config_invalid h config) \<or>
         (\<exists>m. validate_config h config = Inl (ValidationError m) \<and>
              config_invalid h config \<and> names_violation h config m)"
proof (cases "list_ex (\<lambda>sec. map_of config (KStr sec) = None) required_sections")
  case True
  from validate_config_missing_sections [OF True] True show ?thesis
    by (simp add: config_invalid_def names_violation_def filter_empty_list_ex)
next
  case False
  then have present: "map_of config (KStr ''TRANSMITTER'') \<noteq> None"
    "map_of config (KStr ''P1812'') \<noteq> None"
    by (simp_all add: required_sections_def)
  with assms obtain a b where
    ab: "map_of config (KStr ''TRANSMITTER'') = Some (VDict a)"
        "map_of config (KStr ''P1812'') = Some (VDict b)"
    by (auto simp: typed_config_def is_dict_def split: option.splits pyval.splits)
  note v = validate_config_sections_present [OF False ab]
  have tx: "param_of h config ''TRANSMITTER'' k = map_of (objs h a) (KStr k)" for k
    by (simp add: param_of_def ab)
  have p: "param_of h config ''P1812'' k = map_of (objs h b) (KStr k)" for k
    by (simp add: param_of_def ab)
  show ?thesis
  proof (cases "list_ex (\<lambda>k. map_of (objs h a) (KStr k) = None) required_tx_keys")
    case True
    with v False show ?thesis
      by (simp add: config_invalid_def names_violation_def filter_empty_list_ex tx Let_def)
  next
    case no_tx: False
    show ?thesis
    proof (cases "list_ex (\<lambda>k. map_of (objs h b) (KStr k) = None) required_p1812")
      case True
      with v False no_tx show ?thesis
        by (simp add: config_invalid_def names_violation_def filter_empty_list_ex tx p Let_def)
    next
      case no_p: False
      then obtain fv tv pv where
        vals: "map_of (objs h b) (KStr ''frequency_ghz'') = Some fv"
              "map_of (objs h b) (KStr ''time_percentage'') = Some tv"
              "map_of (objs h b) (KStr ''polarization'') = Some pv"
        by (auto simp: required_p1812_def)
      with assms obtain f t where num: "fv = VNum f" "tv = VNum t"
        by (auto simp: typed_config_def is_num_def p split: pyval.splits)
      from v False no_tx no_p vals num show ?thesis
        by (simp add: config_invalid_def names_violation_def filter_empty_list_ex tx p Let_def
              py_getitem_def chained_le_num not_le)
    qed
  qed
qed

lemma validate_cm_typed:
  assumes "typed_config h (objs h self)"
  shows "(validate_cm h self = Inr () \<and> \<not> config_invalid h (objs h self)) \<or>
         (\<exists>m. validate_cm h self = Inl (ConfigError m) \<and>
              config_invalid h (objs h self) \<and> names_violation h (objs h self) m)"
  using validate_config_typed [OF assms] by (auto simp: validate_cm_def)

lemma default_config_valid: "validate_config module_heap (objs module_heap DEFAULT_CONFIG) = Inr ()"
  by (simp add: validate_config_def module_heap_def DEFAULT_CONFIG_def required_sections_def
        required_tx_keys_def required_p1812_def py_contains_def py_getitem_def chained_le_num)

lemma init_cm_defaults:
  "init_cm module_heap None =
     (Inr 7, module_heap\<lparr>objs := (objs module_heap)(7 := objs module_heap DEFAULT_CONFIG),
                         fresh := 8\<rparr>)"
proof -
  have "validate_config
          (module_heap\<lparr>objs := (objs module_heap)(7 := objs module_heap DEFAULT_CONFIG),
                       fresh := 8\<rparr>)
          (objs module_heap DEFAULT_CONFIG) = Inr ()"
    by (simp add: validate_config_def module_heap_def DEFAULT_CONFIG_def required_sections_def
          required_tx_keys_def required_p1812_def py_contains_def py_getitem_def chained_le_num)
  then show ?thesis
    by (simp add: init_cm_def alloc_def bnd_h_def validate_cm_def module_heap_def)
qed

text \<open>
  C2, as the claim states it, fails. In the defaults with TRANSMITTER set to None the
  required keys of TRANSMITTER are absent, yet validation raises TypeError (None is no
  container for \<^verbatim>\<open>key not in tx\<close>), which \<^verbatim>\<open>ConfigManager.validate\<close> does not
  turn into a configuration error; the constructor called with that override raises
  TypeError as well.
\<close>

theorem validation_type_error:
  "config_invalid module_heap example_null_transmitter \<and>
   validate_config module_heap example_null_transmitter = Inl TypeError \<and>
   fst (init_cm module_heap (Some [(KStr ''TRANSMITTER'', ONone)])) = Inl TypeError"
proof -
  have "config_invalid module_heap example_null_transmitter"
    by (simp add: config_invalid_def param_of_def example_null_transmitter_def
          required_tx_keys_def)
  moreover have v: "validate_config h example_null_transmitter = Inl TypeError" for h
    by (simp add: validate_config_def example_null_transmitter_def required_sections_def
          required_tx_keys_def py_contains_def)
  moreover have "fst (init_cm module_heap (Some [(KStr ''TRANSMITTER'', ONone)])) = Inl TypeError"
  proof -
    have u: "AList.update (KStr ''TRANSMITTER'') VNone (objs module_heap DEFAULT_CONFIG) =
        example_null_transmitter"
      by (simp add: module_heap_def DEFAULT_CONFIG_def example_null_transmitter_def)
    show ?thesis
      by (simp add: init_cm_def alloc_def py_setitem_def validate_cm_def bnd_h_def u v)
  qed
  ultimately show ?thesis
    by (intro conjI)
qed

text \<open>
  C2, amended. For every configuration mapping in which the sections TRANSMITTER and
  P1812, where present, are mappings and the frequency and the time percentage, where
  present, are numbers, \<^verbatim>\<open>validate_config\<close> raises its validation error, and
  \<^verbatim>\<open>ConfigManager.validate\<close> the configuration error made from it, if and only if a
  required section is absent, a required key of TRANSMITTER or P1812 is absent, the
  frequency is outside [0.03, 6], the time percentage is outside [1, 50], or the
  polarization is neither 1 nor 2; otherwise validation passes. The message carries the
  absent sections or keys, or the value that is out of range. The built-in defaults
  pass, and a manager can be constructed from them.
\<close>

theorem validation_errors:
  assumes "typed_config h config"
  shows "((\<exists>m. validate_config h config = Inl (ValidationError m)) \<longleftrightarrow> config_invalid h config) \<and>
         (\<not> config_invalid h config \<longrightarrow> validate_config h config = Inr ()) \<and>
         (\<forall>m. validate_config h config = Inl (ValidationError m) \<longrightarrow> names_violation h config m) \<and>
         (objs h self = config \<longrightarrow>
            ((\<exists>m. validate_cm h self = Inl (ConfigError m)) \<longleftrightarrow> config_invalid h config) \<and>
            (\<not> config_invalid h config \<longrightarrow> validate_cm h self = Inr ()) \<and>
            (\<forall>m. validate_cm h self = Inl (ConfigError m) \<longrightarrow> names_violation h config m)) \<and>
         validate_config module_heap (objs module_heap DEFAULT_CONFIG) = Inr () \<and>
         fst (init_cm module_heap None) = Inr 7"
proof -
  from validate_config_typed [OF assms] have
    a: "(\<exists>m. validate_config h config = Inl (ValidationError m)) \<longleftrightarrow> config_invalid h config"
    and b: "\<not> config_invalid h config \<longrightarrow> validate_config h config = Inr ()"
    and c: "\<forall>m. validate_config h config = Inl (ValidationError m) \<longrightarrow> names_violation h config m"
    by auto
  have d: "objs h self = config \<longrightarrow>
            ((\<exists>m. validate_cm h self = Inl (ConfigError m)) \<longleftrightarrow> config_invalid h config) \<and>
            (\<not> config_invalid h config \<longrightarrow> validate_cm h self = Inr ()) \<and>
            (\<forall>m. validate_cm h self = Inl (ConfigError m) \<longrightarrow> names_violation h config m)"
  proof
    assume eq: "objs h self = config"
    with assms have "typed_config h (objs h self)" by simp
    from validate_cm_typed [OF this] eq
    show "((\<exists>m. validate_cm h self = Inl (ConfigError m)) \<longleftrightarrow> config_invalid h config) \<and>
            (\<not> config_invalid h config \<longrightarrow> validate_cm h self = Inr ()) \<and>
            (\<forall>m. validate_cm h self = Inl (ConfigError m) \<longrightarrow> names_violation h config m)"
      by auto
  qed
  have e: "fst (init_cm module_heap None) = Inr 7"
    by (simp add: init_cm_defaults)
  from a b c d default_config_valid e show ?thesis
    by (intro conjI)
qed

lemma example_no_p1812_typed: "typed_config module_heap example_no_p1812"
  by (simp add: typed_config_def is_dict_def is_num_def param_of_def example_no_p1812_def)

theorem validation_errors_witness:
  "typed_config module_heap example_no_p1812 \<and>
   config_invalid module_heap example_no_p1812 \<and>
   validate_config module_heap example_no_p1812 =
     Inl (ValidationError (MissingSections [''P1812'']))"
proof -
  have v: "validate_config module_heap example_no_p1812 =
             Inl (ValidationError (MissingSections [''P1812'']))"
    by (simp add: validate_config_def example_no_p1812_def required_sections_def)
  with validation_errors [OF example_no_p1812_typed, of 0] have
    "config_invalid module_heap example_no_p1812"
    by blast
  with v example_no_p1812_typed show ?thesis
    by (intro conjI)
qed

section \<open>Mutation of the configuration store\<close>

lemma bnd_h_Inr [simp]: "bnd_h (Inr v, h) f = f v h"
  by (simp add: bnd_h_def)

lemma bnd_h_Inl [simp]: "bnd_h (Inl e, h) f = (Inl e, h)"
  by (simp add: bnd_h_def)

text \<open>\<^verbatim>\<open>set\<close> on a section that is a dictionary: the entry is written into that
  dictionary, then the tree is validated; the heap that is returned has the entry
  whatever validation says.\<close>

lemma set_cm_present:
  assumes "map_of (objs h self) (KStr section) = Some (VDict a)"
  shows "set_cm h self section key v =
           (validate_cm (h\<lparr>objs := (objs h)(a := AList.update (KStr key) v (objs h a))\<rparr>) self,
            h\<lparr>objs := (objs h)(a := AList.update (KStr key) v (objs h a))\<rparr>)"
  using assms by (simp add: set_cm_def py_getitem_def py_setitem_def)

lemma set_cm_absent:
  assumes "map_of (objs h self) (KStr section) = None" and "self < fresh h"
  shows "set_cm h self section key v =
           (validate_cm
              (h\<lparr>objs := (objs h)
                    (fresh h := [(KStr key, v)],
                     self := AList.update (KStr section) (VDict (fresh h)) (objs h self)),
                 fresh := Suc (fresh h)\<rparr>) self,
            h\<lparr>objs := (objs h)
                  (fresh h := [(KStr key, v)],
                   self := AList.update (KStr section) (VDict (fresh h)) (objs h self)),
               fresh := Suc (fresh h)\<rparr>)"
proof -
  from assms(2) have ne: "fresh h \<noteq> self" by simp
  have "(objs h)(fresh h := [], self := AList.update (KStr section) (VDict (fresh h)) (objs h self),
                 fresh h := [(KStr key, v)]) =
        (objs h)(fresh h := [(KStr key, v)],
                 self := AList.update (KStr section) (VDict (fresh h)) (objs h self))"
    using ne by (auto simp: fun_eq_iff)
  with assms ne show ?thesis
    by (cases h) (simp add: set_cm_def alloc_def py_getitem_def py_setitem_def update_conv')
qed

lemma py_contains_error: "py_contains h c k = Inl e \<Longrightarrow> e = TypeError"
  by (auto simp: py_contains_def split: pyval.splits key.splits)

lemma missing_keys_error: "missing_keys h c ks = Inl e \<Longrightarrow> e = TypeError"
proof (induction ks)
  case Nil
  then show ?case by simp
next
  case (Cons k ks)
  then show ?case
    by (cases "py_contains h c (KStr k)"; cases "missing_keys h c ks")
       (auto dest: py_contains_error)
qed

lemma py_getitem_error:
  "py_getitem h c k = Inl e \<Longrightarrow> e = TypeError \<or> e = KeyError \<or> e = IndexError"
  by (auto simp: py_getitem_def py_index_def bnd_def
        split: pyval.splits key.splits option.splits if_splits sum.splits)

lemma chained_le_error: "chained_le lo v hi = Inl e \<Longrightarrow> e = TypeError"
  by (cases v) (auto simp: chained_le_def num_le_val_def val_le_num_def split: if_splits)

lemma bnd_eq_Inl: "bnd m f = Inl e \<longleftrightarrow> m = Inl e \<or> (\<exists>v. m = Inr v \<and> f v = Inl e)"
  by (cases m) simp_all

lemma validate_config_error:
  assumes "validate_config h config = Inl e"
  shows "(\<exists>m. e = ValidationError m) \<or> e = TypeError \<or> e = KeyError \<or> e = IndexError"
  using assms
  by (auto simp: validate_config_def Let_def bnd_eq_Inl
        split: if_splits option.splits
        dest: missing_keys_error py_getitem_error chained_le_error)

lemma validate_cm_Inr: "validate_cm h self = Inr u \<Longrightarrow> validate_config h (objs h self) = Inr ()"
  by (auto simp: validate_cm_def split: sum.splits py_error.splits)

lemma validate_cm_ValidationError:
  "validate_config h (objs h self) = Inl (ValidationError m) \<Longrightarrow>
   validate_cm h self = Inl (ConfigError m)"
  by (simp add: validate_cm_def)

lemma get_cm_dict:
  assumes "map_of (objs h self) (KStr section) = Some (VDict a)"
    and "map_of (objs h a) (KStr key) = Some v"
  shows "get_cm h self section (Some key) dflt = v"
  using assms by (simp add: get_cm_def)

lemma set_cm_result:
  assumes "assignable h self section" and "set_cm h self section key v = (r, h')"
  shows "get_cm h' self section (Some key) dflt = v \<and> r = validate_cm h' self"
proof (cases "map_of (objs h self) (KStr section)")
  case None
  from assms(1) have self: "self < fresh h"
    by (simp add: assignable_def)
  then have ne: "fresh h \<noteq> self" by simp
  from set_cm_absent [OF None self, of key v] assms(2) have
    h': "h' = h\<lparr>objs := (objs h)
                  (fresh h := [(KStr key, v)],
                   self := AList.update (KStr section) (VDict (fresh h)) (objs h self)),
               fresh := Suc (fresh h)\<rparr>" and
    r: "r = validate_cm h' self"
    by simp_all
  have "map_of (objs h' self) (KStr section) = Some (VDict (fresh h))"
    by (simp add: h' update_conv')
  moreover have "map_of (objs h' (fresh h)) (KStr key) = Some v"
    using ne by (simp add: h')
  ultimately show ?thesis
    using r by (simp add: get_cm_dict)
next
  case (Some sec)
  with assms(1) obtain a where a: "sec = VDict a" "a \<noteq> self"
    by (auto simp: assignable_def split: pyval.splits)
  from Some a have present: "map_of (objs h self) (KStr section) = Some (VDict a)"
    by simp
  from set_cm_present [OF present, of key v] assms(2) have
    h': "h' = h\<lparr>objs := (objs h)(a := AList.update (KStr key) v (objs h a))\<rparr>" and
    r: "r = validate_cm h' self"
    by simp_all
  have "map_of (objs h' self) (KStr section) = Some (VDict a)"
    using a(2) present by (simp add: h')
  moreover have "map_of (objs h' a) (KStr key) = Some v"
    by (simp add: h' update_conv')
  ultimately show ?thesis
    using r by (simp add: get_cm_dict)
qed

lemma example_manager: "init_cm module_heap None = (Inr 7, example_manager_heap)"
  by (simp add: init_cm_defaults example_manager_heap_def)

lemma example_manager_valid: "validate_cm example_manager_heap 7 = Inr ()"
  by (simp add: validate_cm_def validate_config_def example_manager_heap_def module_heap_def
        DEFAULT_CONFIG_def required_sections_def required_tx_keys_def required_p1812_def
        py_contains_def py_getitem_def chained_le_num)

lemma example_manager_frequency:
  "get_cm example_manager_heap 7 ''P1812'' (Some ''frequency_ghz'') VNone = VNum (9 / 10)"
  by (simp add: get_cm_def example_manager_heap_def module_heap_def DEFAULT_CONFIG_def)

lemma example_set_frequency:
  "set_cm example_manager_heap 7 ''P1812'' ''frequency_ghz'' (VNum 10) =
     (Inl (ConfigError (FrequencyOutsideRange (VNum 10))),
      example_manager_heap
        \<lparr>objs := (objs example_manager_heap)
           (1 := [(KStr ''frequency_ghz'', VNum 10),
                  (KStr ''time_percentage'', VNum 50),
                  (KStr ''polarization'', VNum 1)])\<rparr>)"
proof -
  have p: "map_of (objs example_manager_heap 7) (KStr ''P1812'') = Some (VDict 1)"
    by (simp add: example_manager_heap_def module_heap_def DEFAULT_CONFIG_def)
  have u: "AList.update (KStr ''frequency_ghz'') (VNum 10) (objs example_manager_heap 1) =
             [(KStr ''frequency_ghz'', VNum 10),
              (KStr ''time_percentage'', VNum 50),
              (KStr ''polarization'', VNum 1)]"
    by (simp add: example_manager_heap_def module_heap_def)
  have "validate_cm
          (example_manager_heap
             \<lparr>objs := (objs example_manager_heap)
                (1 := [(KStr ''frequency_ghz'', VNum 10),
                       (KStr ''time_percentage'', VNum 50),
                       (KStr ''polarization'', VNum 1)])\<rparr>) 7 =
        Inl (ConfigError (FrequencyOutsideRange (VNum 10)))"
    by (simp add: validate_cm_def validate_config_def example_manager_heap_def module_heap_def
          DEFAULT_CONFIG_def required_sections_def required_tx_keys_def required_p1812_def
          py_contains_def py_getitem_def chained_le_num)
  then show ?thesis
    by (simp only: set_cm_present [OF p] u)
qed

text \<open>
  C3, as the claim states it, fails. A manager made from the defaults is valid and reads
  the frequency 0.9; \<^verbatim>\<open>set("P1812", "frequency_ghz", 10)\<close> raises the configuration
  error, and afterwards \<^verbatim>\<open>get\<close> reads 10.
\<close>

theorem set_leaves_invalid_value:
  "init_cm module_heap None = (Inr 7, example_manager_heap) \<and>
   validate_cm example_manager_heap 7 = Inr () \<and>
   get_cm example_manager_heap 7 ''P1812'' (Some ''frequency_ghz'') VNone = VNum (9 / 10) \<and>
   fst (set_cm example_manager_heap 7 ''P1812'' ''frequency_ghz'' (VNum 10)) =
     Inl (ConfigError (FrequencyOutsideRange (VNum 10))) \<and>
   get_cm (snd (set_cm example_manager_heap 7 ''P1812'' ''frequency_ghz'' (VNum 10))) 7
     ''P1812'' (Some ''frequency_ghz'') VNone = VNum 10 \<and>
   VNum 10 \<noteq> VNum (9 / 10)"
proof -
  have "get_cm (snd (set_cm example_manager_heap 7 ''P1812'' ''frequency_ghz'' (VNum 10))) 7
          ''P1812'' (Some ''frequency_ghz'') VNone = VNum 10"
    by (simp add: example_set_frequency get_cm_def)
       (simp add: example_manager_heap_def module_heap_def DEFAULT_CONFIG_def)
  moreover have "fst (set_cm example_manager_heap 7 ''P1812'' ''frequency_ghz'' (VNum 10)) =
      Inl (ConfigError (FrequencyOutsideRange (VNum 10)))"
    by (simp add: example_set_frequency)
  moreover have "VNum 10 \<noteq> VNum (9 / 10)"
    by simp
  ultimately show ?thesis
    using example_manager example_manager_valid example_manager_frequency
    by (intro conjI)
qed

text \<open>
  C3, amended. \<^verbatim>\<open>set(section, key, value)\<close>, on a section that is absent or a nested
  dictionary, assigns before it validates and does not undo the assignment: whatever
  the call returns or raises, \<^verbatim>\<open>get(section, key)\<close> afterwards reads the new value.
  The call raises the configuration error exactly when validation of the tree that now
  holds the value raises its validation error, and returns only if that tree is valid.
\<close>

theorem set_assigns_then_validates:
  assumes "assignable h self section" and "set_cm h self section key v = (r, h')"
  shows "get_cm h' self section (Some key) dflt = v \<and>
         (\<forall>m. validate_config h' (objs h' self) = Inl (ValidationError m) \<longleftrightarrow>
              r = Inl (ConfigError m)) \<and>
         (r = Inr () \<longleftrightarrow> validate_config h' (objs h' self) = Inr ())"
proof -
  from set_cm_result [OF assms] have
    g: "get_cm h' self section (Some key) dflt = v" and r: "r = validate_cm h' self"
    by simp_all
  have "\<forall>m. validate_config h' (objs h' self) = Inl (ValidationError m) \<longleftrightarrow>
              r = Inl (ConfigError m)"
    unfolding r
    by (auto simp: validate_cm_def split: sum.splits py_error.splits
          dest: validate_config_error)
  moreover have "r = Inr () \<longleftrightarrow> validate_config h' (objs h' self) = Inr ()"
    unfolding r by (auto simp: validate_cm_def split: sum.splits py_error.splits)
  ultimately show ?thesis
    using g by blast
qed

theorem set_assigns_then_validates_witness:
  "assignable example_manager_heap 7 ''P1812'' \<and>
   fst (set_cm example_manager_heap 7 ''P1812'' ''frequency_ghz'' (VNum 10)) =
     Inl (ConfigError (FrequencyOutsideRange (VNum 10))) \<and>
   get_cm (snd (set_cm example_manager_heap 7 ''P1812'' ''frequency_ghz'' (VNum 10))) 7
     ''P1812'' (Some ''frequency_ghz'') VNone = VNum 10"
proof -
  have a: "assignable example_manager_heap 7 ''P1812''"
    by (simp add: assignable_def example_manager_heap_def module_heap_def DEFAULT_CONFIG_def)
  have s: "set_cm example_manager_heap 7 ''P1812'' ''frequency_ghz'' (VNum 10) =
             (fst (set_cm example_manager_heap 7 ''P1812'' ''frequency_ghz'' (VNum 10)),
              snd (set_cm example_manager_heap 7 ''P1812'' ''frequency_ghz'' (VNum 10)))"
    by simp
  from set_assigns_then_validates [OF a s, of VNone] have
    "get_cm (snd (set_cm example_manager_heap 7 ''P1812'' ''frequency_ghz'' (VNum 10))) 7
       ''P1812'' (Some ''frequency_ghz'') VNone = VNum 10"
    by blast
  with a show ?thesis
    by (simp add: example_set_frequency)
qed

section \<open>Sharing between the defaults and the managers\<close>

lemma init_cm_None:
  assumes "init_cm h None = (r, h')"
  shows "objs h' = (objs h)(fresh h := objs h DEFAULT_CONFIG)"
    and "fresh h' = Suc (fresh h)"
    and "r = Inr m \<Longrightarrow> m = fresh h"
  using assms
  by (auto simp: init_cm_def alloc_def split: sum.splits)

lemma store_leaf: "is_leaf x \<Longrightarrow> store_oval h x = (scalar_of x, h)"
  by (cases x) (simp_all add: is_leaf_def scalar_of_def)

lemma deep_update_leaf:
  assumes "is_leaf x"
  shows "deep_update h (VDict a) ((k, x) # rest) =
           deep_update (h\<lparr>objs := (objs h)(a := AList.update k (scalar_of x) (objs h a))\<rparr>)
             (VDict a) rest"
  using assms
  by (cases x) (simp_all add: is_leaf_def scalar_of_def py_setitem_def)

lemma deep_update_leaves:
  assumes "\<forall>x\<in>set (map snd items). is_leaf x"
  shows "deep_update h (VDict a) items =
           (Inr (), h\<lparr>objs := (objs h)
                     (a := fold (\<lambda>(k, x). AList.update k (scalar_of x)) items (objs h a))\<rparr>)"
  using assms
proof (induction items arbitrary: h)
  case Nil
  then show ?case by simp
next
  case (Cons item items)
  obtain k x where item: "item = (k, x)"
    by (cases item)
  with Cons.prems have leaf: "is_leaf x" and rest: "\<forall>x\<in>set (map snd items). is_leaf x"
    by simp_all
  show ?case
    unfolding item deep_update_leaf [OF leaf] Cons.IH [OF rest]
    by (cases h) (simp add: fun_eq_iff)
qed

lemma fold_update_other:
  "k \<notin> set (map fst items) \<Longrightarrow>
   map_of (fold (\<lambda>(k, x). AList.update k (f x)) items d) k = map_of d k"
  by (induction items arbitrary: d) (auto simp: update_conv')

lemma fold_update_member:
  assumes "distinct (map fst items)" and "(k, x) \<in> set items"
  shows "map_of (fold (\<lambda>(k, x). AList.update k (f x)) items d) k = Some (f x)"
  using assms
proof (induction items arbitrary: d)
  case Nil
  then show ?case by simp
next
  case (Cons item items)
  show ?case
  proof (cases "item = (k, x)")
    case True
    with Cons.prems(1) have other: "k \<notin> set (map fst items)"
      by auto
    from True show ?thesis
      by (simp add: update_conv' fold_update_other [OF other])
  next
    case False
    with Cons.prems have "distinct (map fst items)" "(k, x) \<in> set items"
      by auto
    from Cons.IH [OF this] show ?thesis
      by simp
  qed
qed

lemma init_cm_override:
  assumes "map_of (objs h DEFAULT_CONFIG) (KStr section) = Some (VDict a)"
    and "a \<noteq> fresh h"
    and "\<forall>x\<in>set (map snd items). is_leaf x"
    and "init_cm h (Some [(KStr section, ODict items)]) = (r, h')"
  shows "objs h' =
           (objs h)(fresh h := objs h DEFAULT_CONFIG,
                    a := fold (\<lambda>(k, x). AList.update k (scalar_of x)) items (objs h a))"
    and "fresh h' = Suc (fresh h)"
  using assms(1,2,4)
  by (auto simp: init_cm_def alloc_def py_contains_def py_getitem_def
        deep_update_leaves [OF assms(3)] split: sum.splits)

text \<open>What every manager that still holds the reference of the defaults reads, and
  what a manager made from the defaults afterwards reads.\<close>

lemma shared_section_observed:
  assumes "map_of (objs h DEFAULT_CONFIG) (KStr section) = Some (VDict a)"
    and "map_of (objs h a) (KStr key) = Some v"
    and "a < fresh h"
  shows "objs h m = objs h DEFAULT_CONFIG \<Longrightarrow> get_cm h m section (Some key) dflt = v"
    and "init_cm h None = (Inr m3, h4) \<Longrightarrow> get_cm h4 m3 section (Some key) dflt = v"
proof -
  assume "objs h m = objs h DEFAULT_CONFIG"
  with assms(1,2) show "get_cm h m section (Some key) dflt = v"
    by (simp add: get_cm_dict)
next
  assume i: "init_cm h None = (Inr m3, h4)"
  from init_cm_None [OF i] have
    "objs h4 = (objs h)(fresh h := objs h DEFAULT_CONFIG)" "m3 = fresh h"
    by simp_all
  with assms show "get_cm h4 m3 section (Some key) dflt = v"
    by (simp add: get_cm_dict)
qed

lemma example_replaced_manager:
  "init_cm module_heap (Some [(KStr ''SENTINEL_HUB'', ONone)]) = (Inr 7, example_replaced_heap)"
  by (simp add: init_cm_def alloc_def py_setitem_def validate_cm_def validate_config_def
        example_replaced_heap_def module_heap_def DEFAULT_CONFIG_def required_sections_def
        required_tx_keys_def required_p1812_def py_contains_def py_getitem_def chained_le_num)

lemma example_replaced_second:
  "init_cm example_replaced_heap None = (Inr 8, example_replaced_two_heap)"
  by (simp add: init_cm_def alloc_def validate_cm_def validate_config_def
        example_replaced_two_heap_def example_replaced_heap_def module_heap_def
        DEFAULT_CONFIG_def required_sections_def required_tx_keys_def required_p1812_def
        py_contains_def py_getitem_def chained_le_num)

lemma example_replaced_set_raises:
  "set_cm example_replaced_two_heap 7 ''SENTINEL_HUB'' ''year'' (VNum 2021) =
     (Inl TypeError, example_replaced_two_heap)"
  by (simp add: set_cm_def py_getitem_def py_setitem_def example_replaced_two_heap_def
        example_replaced_heap_def module_heap_def)

lemma example_replaced_set:
  "set_cm example_replaced_two_heap 8 ''SENTINEL_HUB'' ''year'' (VNum 2021) =
     (Inr (),
      example_replaced_two_heap
        \<lparr>objs := (objs example_replaced_two_heap)
           (3 := [(KStr ''buffer_m'', VNum 11000),
                  (KStr ''chip_px'', VNum 734),
                  (KStr ''year'', VNum 2021)])\<rparr>)"
proof -
  have p: "map_of (objs example_replaced_two_heap 8) (KStr ''SENTINEL_HUB'') = Some (VDict 3)"
    by (simp add: example_replaced_two_heap_def example_replaced_heap_def module_heap_def
          DEFAULT_CONFIG_def)
  have u: "AList.update (KStr ''year'') (VNum 2021) (objs example_replaced_two_heap 3) =
             [(KStr ''buffer_m'', VNum 11000),
              (KStr ''chip_px'', VNum 734),
              (KStr ''year'', VNum 2021)]"
    by (simp add: example_replaced_two_heap_def example_replaced_heap_def module_heap_def)
  have "validate_cm
          (example_replaced_two_heap
             \<lparr>objs := (objs example_replaced_two_heap)
                (3 := [(KStr ''buffer_m'', VNum 11000),
                       (KStr ''chip_px'', VNum 734),
                       (KStr ''year'', VNum 2021)])\<rparr>) 8 = Inr ()"
    by (simp add: validate_cm_def validate_config_def example_replaced_two_heap_def
          example_replaced_heap_def module_heap_def
          DEFAULT_CONFIG_def required_sections_def required_tx_keys_def required_p1812_def
          py_contains_def py_getitem_def chained_le_num)
  then show ?thesis
    by (simp only: set_cm_present [OF p] u)
qed

text \<open>
  C9, as the claim states it, fails: not every manager shares the sections of the
  defaults. A manager made with the override \<^verbatim>\<open>{"SENTINEL_HUB": None}\<close> is valid and
  holds None for that section in its own copy of the top-level dictionary. Calling
  \<^verbatim>\<open>set("SENTINEL_HUB", "year", 2021)\<close> on it raises TypeError and changes nothing;
  and when the same call on a manager made from the defaults has changed
  \<^verbatim>\<open>DEFAULT_CONFIG\<close>, the first manager still reads None through \<^verbatim>\<open>get\<close>.
\<close>

theorem replaced_section_not_shared:
  "init_cm module_heap (Some [(KStr ''SENTINEL_HUB'', ONone)]) = (Inr 7, example_replaced_heap) \<and>
   init_cm example_replaced_heap None = (Inr 8, example_replaced_two_heap) \<and>
   map_of (objs example_replaced_two_heap DEFAULT_CONFIG) (KStr ''SENTINEL_HUB'') =
     Some (VDict 3) \<and>
   set_cm example_replaced_two_heap 7 ''SENTINEL_HUB'' ''year'' (VNum 2021) =
     (Inl TypeError, example_replaced_two_heap) \<and>
   fst (set_cm example_replaced_two_heap 8 ''SENTINEL_HUB'' ''year'' (VNum 2021)) = Inr () \<and>
   map_of (objs (snd (set_cm example_replaced_two_heap 8 ''SENTINEL_HUB'' ''year'' (VNum 2021))) 3)
     (KStr ''year'') = Some (VNum 2021) \<and>
   get_cm (snd (set_cm example_replaced_two_heap 8 ''SENTINEL_HUB'' ''year'' (VNum 2021))) 8
     ''SENTINEL_HUB'' (Some ''year'') VNone = VNum 2021 \<and>
   get_cm (snd (set_cm example_replaced_two_heap 8 ''SENTINEL_HUB'' ''year'' (VNum 2021))) 7
     ''SENTINEL_HUB'' (Some ''year'') VNone = VNone"
proof -
  have d: "map_of (objs example_replaced_two_heap DEFAULT_CONFIG) (KStr ''SENTINEL_HUB'') =
             Some (VDict 3)"
    by (simp add: example_replaced_two_heap_def example_replaced_heap_def module_heap_def
          DEFAULT_CONFIG_def)
  have s: "fst (set_cm example_replaced_two_heap 8 ''SENTINEL_HUB'' ''year'' (VNum 2021)) = Inr ()"
    by (simp add: example_replaced_set)
  have w: "map_of (objs (snd (set_cm example_replaced_two_heap 8 ''SENTINEL_HUB'' ''year''
                               (VNum 2021))) 3) (KStr ''year'') = Some (VNum 2021)"
    by (simp add: example_replaced_set)
  have g8: "get_cm (snd (set_cm example_replaced_two_heap 8 ''SENTINEL_HUB'' ''year'' (VNum 2021)))
              8 ''SENTINEL_HUB'' (Some ''year'') VNone = VNum 2021"
    by (simp add: example_replaced_set get_cm_def)
       (simp add: example_replaced_two_heap_def example_replaced_heap_def module_heap_def
          DEFAULT_CONFIG_def)
  have g7: "get_cm (snd (set_cm example_replaced_two_heap 8 ''SENTINEL_HUB'' ''year'' (VNum 2021)))
              7 ''SENTINEL_HUB'' (Some ''year'') VNone = VNone"
    by (simp add: example_replaced_set get_cm_def)
       (simp add: example_replaced_two_heap_def example_replaced_heap_def module_heap_def
          DEFAULT_CONFIG_def)
  show ?thesis
    by (intro conjI)
       (fact example_replaced_manager example_replaced_second d example_replaced_set_raises
          s w g8 g7)+
qed

text \<open>
  C9, amended. The constructor copies only the top-level dictionary of
  \<^verbatim>\<open>DEFAULT_CONFIG\<close>, so a manager made from the defaults holds, for every section
  that the defaults hold as a nested dictionary, that same dictionary, and the managers
  that exist keep theirs. \<^verbatim>\<open>set(section, key, value)\<close> on any manager that holds the
  dictionary of the defaults for the section, and likewise the construction of a manager
  with an override of leaf values for that section, writes into the dictionary that
  \<^verbatim>\<open>DEFAULT_CONFIG\<close> itself holds (whether or not validation then raises); every
  manager that holds that dictionary for the section, whenever it was made, reads the
  new value through \<^verbatim>\<open>get\<close>, and so does every manager made from the defaults
  afterwards.
\<close>

theorem default_sections_shared:
  assumes "DEFAULT_CONFIG < fresh h" and "a < fresh h" and "a \<noteq> DEFAULT_CONFIG"
    and "map_of (objs h DEFAULT_CONFIG) (KStr section) = Some (VDict a)"
  shows "(\<forall>m h1. init_cm h None = (Inr m, h1) \<longrightarrow>
            holds_section h1 m section a \<and>
            map_of (objs h1 DEFAULT_CONFIG) (KStr section) = Some (VDict a) \<and>
            (\<forall>m0<fresh h. holds_section h m0 section a \<longrightarrow> holds_section h1 m0 section a)) \<and>
         (\<forall>m1. holds_section h m1 section a \<and> set_cm h m1 section key v = (r, h3) \<longrightarrow>
            map_of (objs h3 DEFAULT_CONFIG) (KStr section) = Some (VDict a) \<and>
            map_of (objs h3 a) (KStr key) = Some v \<and>
            (\<forall>m2. holds_section h m2 section a \<longrightarrow>
               get_cm h3 m2 section (Some key) dflt = v) \<and>
            (\<forall>m3 h4. init_cm h3 None = (Inr m3, h4) \<longrightarrow>
               get_cm h4 m3 section (Some key) dflt = v)) \<and>
         ((\<forall>x\<in>set (map snd items). is_leaf x) \<and> distinct (map fst items) \<and>
          (KStr key, x) \<in> set items \<and>
          init_cm h (Some [(KStr section, ODict items)]) = (r', h3') \<longrightarrow>
            map_of (objs h3' DEFAULT_CONFIG) (KStr section) = Some (VDict a) \<and>
            map_of (objs h3' a) (KStr key) = Some (scalar_of x) \<and>
            (\<forall>m2<fresh h. holds_section h m2 section a \<longrightarrow>
               get_cm h3' m2 section (Some key) dflt = scalar_of x) \<and>
            (\<forall>m3 h4. init_cm h3' None = (Inr m3, h4) \<longrightarrow>
               get_cm h4 m3 section (Some key) dflt = scalar_of x))"
proof -
  define D where "D = objs h DEFAULT_CONFIG"
  from assms(4) have sec: "map_of D (KStr section) = Some (VDict a)"
    by (simp add: D_def)
  from assms(1,2) have fr: "a \<noteq> fresh h" "DEFAULT_CONFIG \<noteq> fresh h"
    by simp_all
  have part0: "holds_section h1 m section a \<and>
            map_of (objs h1 DEFAULT_CONFIG) (KStr section) = Some (VDict a) \<and>
            (\<forall>m0<fresh h. holds_section h m0 section a \<longrightarrow> holds_section h1 m0 section a)"
    if i: "init_cm h None = (Inr m, h1)" for m h1
  proof -
    from init_cm_None [OF i] have
      h1: "objs h1 = (objs h)(fresh h := D)" "m = fresh h"
      by (simp_all add: D_def)
    from h1 fr sec have "holds_section h1 m section a"
      by (simp add: holds_section_def)
    moreover from h1 fr sec have "map_of (objs h1 DEFAULT_CONFIG) (KStr section) = Some (VDict a)"
      by (simp add: D_def)
    moreover from h1 have
      "\<forall>m0<fresh h. holds_section h m0 section a \<longrightarrow> holds_section h1 m0 section a"
      by (simp add: holds_section_def)
    ultimately show ?thesis
      by (intro conjI)
  qed
  have part1: "map_of (objs h3 DEFAULT_CONFIG) (KStr section) = Some (VDict a) \<and>
            map_of (objs h3 a) (KStr key) = Some v \<and>
            (\<forall>m2. holds_section h m2 section a \<longrightarrow>
               get_cm h3 m2 section (Some key) dflt = v) \<and>
            (\<forall>m3 h4. init_cm h3 None = (Inr m3, h4) \<longrightarrow>
               get_cm h4 m3 section (Some key) dflt = v)"
    if m1: "holds_section h m1 section a" and s: "set_cm h m1 section key v = (r, h3)" for m1
  proof -
    from m1 have "map_of (objs h m1) (KStr section) = Some (VDict a)"
      by (simp add: holds_section_def)
    from set_cm_present [OF this, of key v] s have
      h3: "h3 = h\<lparr>objs := (objs h)(a := AList.update (KStr key) v (objs h a))\<rparr>"
      by simp
    from assms(3) sec have d: "map_of (objs h3 DEFAULT_CONFIG) (KStr section) = Some (VDict a)"
      by (simp add: h3 D_def)
    have v: "map_of (objs h3 a) (KStr key) = Some v"
      by (simp add: h3 update_conv')
    from assms(2) have fr3: "a < fresh h3"
      by (simp add: h3)
    have others: "\<forall>m2. holds_section h m2 section a \<longrightarrow>
               get_cm h3 m2 section (Some key) dflt = v"
    proof (intro allI impI)
      fix m2 assume "holds_section h m2 section a"
      then have "m2 \<noteq> a" "map_of (objs h m2) (KStr section) = Some (VDict a)"
        by (simp_all add: holds_section_def)
      then have "map_of (objs h3 m2) (KStr section) = Some (VDict a)"
        by (simp add: h3)
      from get_cm_dict [OF this v] show "get_cm h3 m2 section (Some key) dflt = v" .
    qed
    from d v others shared_section_observed(2) [OF d v fr3] show ?thesis
      by blast
  qed
  have part2: "map_of (objs h3' DEFAULT_CONFIG) (KStr section) = Some (VDict a) \<and>
            map_of (objs h3' a) (KStr key) = Some (scalar_of x) \<and>
            (\<forall>m2<fresh h. holds_section h m2 section a \<longrightarrow>
               get_cm h3' m2 section (Some key) dflt = scalar_of x) \<and>
            (\<forall>m3 h4. init_cm h3' None = (Inr m3, h4) \<longrightarrow>
               get_cm h4 m3 section (Some key) dflt = scalar_of x)"
    if leaves: "\<forall>x\<in>set (map snd items). is_leaf x" and dist: "distinct (map fst items)"
      and mem: "(KStr key, x) \<in> set items"
      and i: "init_cm h (Some [(KStr section, ODict items)]) = (r', h3')"
  proof -
    from init_cm_override [OF assms(4) fr(1) leaves i] have
      h3: "objs h3' =
             (objs h)(fresh h := objs h DEFAULT_CONFIG,
                      a := fold (\<lambda>(k, x). AList.update k (scalar_of x)) items (objs h a))"
        "fresh h3' = Suc (fresh h)"
      by simp_all
    from assms(3) fr sec have d: "map_of (objs h3' DEFAULT_CONFIG) (KStr section) = Some (VDict a)"
      by (simp add: h3 D_def)
    have v: "map_of (objs h3' a) (KStr key) = Some (scalar_of x)"
      by (simp add: h3 fold_update_member [OF dist mem])
    from assms(2) h3(2) have fr3: "a < fresh h3'"
      by simp
    have others: "\<forall>m2<fresh h. holds_section h m2 section a \<longrightarrow>
               get_cm h3' m2 section (Some key) dflt = scalar_of x"
    proof (intro allI impI)
      fix m2 assume "m2 < fresh h" and "holds_section h m2 section a"
      then have "m2 \<noteq> a" "m2 \<noteq> fresh h" "map_of (objs h m2) (KStr section) = Some (VDict a)"
        by (simp_all add: holds_section_def)
      then have "map_of (objs h3' m2) (KStr section) = Some (VDict a)"
        by (simp add: h3)
      from get_cm_dict [OF this v] show "get_cm h3' m2 section (Some key) dflt = scalar_of x" .
    qed
    from d v others shared_section_observed(2) [OF d v fr3] show ?thesis
      by blast
  qed
  from part0 part1 part2 show ?thesis
    by blast
qed

lemma example_second_manager:
  "init_cm example_manager_heap None = (Inr 8, example_two_managers_heap)"
proof -
  have "validate_config example_two_managers_heap (objs module_heap DEFAULT_CONFIG) = Inr ()"
    by (simp add: validate_config_def example_two_managers_heap_def module_heap_def
          DEFAULT_CONFIG_def required_sections_def required_tx_keys_def required_p1812_def
          py_contains_def py_getitem_def chained_le_num)
  moreover have
    "example_manager_heap
       \<lparr>objs := (objs example_manager_heap)(8 := objs example_manager_heap DEFAULT_CONFIG),
         fresh := 9\<rparr> = example_two_managers_heap"
    by (simp add: example_manager_heap_def example_two_managers_heap_def module_heap_def
          DEFAULT_CONFIG_def)
  moreover have "objs example_two_managers_heap 8 = objs module_heap DEFAULT_CONFIG"
    "fresh example_manager_heap = 8"
    by (simp_all add: example_two_managers_heap_def example_manager_heap_def)
  ultimately show ?thesis
    by (simp add: init_cm_def alloc_def validate_cm_def)
qed

theorem default_sections_shared_witness:
  "init_cm module_heap None = (Inr 7, example_manager_heap) \<and>
   init_cm example_manager_heap None = (Inr 8, example_two_managers_heap) \<and>
   map_of (objs example_two_managers_heap DEFAULT_CONFIG) (KStr ''P1812'') = Some (VDict 1) \<and>
   holds_section example_two_managers_heap 7 ''P1812'' 1 \<and>
   holds_section example_two_managers_heap 8 ''P1812'' 1 \<and>
   get_cm example_two_managers_heap 8 ''P1812'' (Some ''polarization'') VNone = VNum 1 \<and>
   map_of (objs (snd (set_cm example_two_managers_heap 7 ''P1812'' ''polarization'' (VNum 2))) 1)
     (KStr ''polarization'') = Some (VNum 2) \<and>
   get_cm (snd (set_cm example_two_managers_heap 7 ''P1812'' ''polarization'' (VNum 2))) 8
     ''P1812'' (Some ''polarization'') VNone = VNum 2"
proof -
  have pre: "DEFAULT_CONFIG < fresh example_two_managers_heap"
    "1 < fresh example_two_managers_heap" "1 \<noteq> DEFAULT_CONFIG"
    "map_of (objs example_two_managers_heap DEFAULT_CONFIG) (KStr ''P1812'') = Some (VDict 1)"
    by (simp_all add: example_two_managers_heap_def module_heap_def DEFAULT_CONFIG_def)
  have m: "holds_section example_two_managers_heap 7 ''P1812'' 1"
    "holds_section example_two_managers_heap 8 ''P1812'' 1"
    by (simp_all add: holds_section_def example_two_managers_heap_def module_heap_def
          DEFAULT_CONFIG_def)
  have s: "set_cm example_two_managers_heap 7 ''P1812'' ''polarization'' (VNum 2) =
             (fst (set_cm example_two_managers_heap 7 ''P1812'' ''polarization'' (VNum 2)),
              snd (set_cm example_two_managers_heap 7 ''P1812'' ''polarization'' (VNum 2)))"
    by simp
  have before: "get_cm example_two_managers_heap 8 ''P1812'' (Some ''polarization'') VNone = VNum 1"
    by (simp add: get_cm_def example_two_managers_heap_def module_heap_def DEFAULT_CONFIG_def)
  from default_sections_shared [OF pre,
      of "''polarization''" "VNum 2"
         "fst (set_cm example_two_managers_heap 7 ''P1812'' ''polarization'' (VNum 2))"
         "snd (set_cm example_two_managers_heap 7 ''P1812'' ''polarization'' (VNum 2))" VNone]
    s m
  have "map_of (objs (snd (set_cm example_two_managers_heap 7 ''P1812'' ''polarization''
                            (VNum 2))) 1) (KStr ''polarization'') = Some (VNum 2)"
    "get_cm (snd (set_cm example_two_managers_heap 7 ''P1812'' ''polarization'' (VNum 2))) 8
       ''P1812'' (Some ''polarization'') VNone = VNum 2"
    by blast+
  with example_manager example_second_manager pre(4) m before show ?thesis
    by (intro conjI)
qed

section \<open>The phyllotaxis points\<close>

lemma int_float_limit_pos: "0 < int_float_limit"
  by (simp add: int_float_limit_def)

lemma float_of_int_Inr: "0 \<le> k \<Longrightarrow> k < int_float_limit \<Longrightarrow> float_of_int k = Inr (of_int k)"
  by (simp add: float_of_int_def)

lemma float_of_int_overflow: "int_float_limit \<le> k \<Longrightarrow> float_of_int k = Inl OverflowError"
  using int_float_limit_pos by (simp add: float_of_int_def)

lemma cos_of_nonzero: "cos_of c x \<noteq> 0"
  using cos_of [of c] by simp

lemma math_cos_radians:
  assumes "lat0 \<noteq> PInf" and "lat0 \<noteq> NInf"
  shows "\<exists>cos_lat. math_cos c (math_radians lat0) = Inr cos_lat \<and>
           fmul (Fin 111320) cos_lat \<noteq> Fin 0 \<and>
           (\<forall>a. lat0 = Fin a \<longrightarrow> cos_lat = Fin (cos_of c (a * pi / 180)))"
  using assms
  by (cases lat0) (simp_all add: math_cos_def math_radians_def cos_of_nonzero)

lemma phyllotaxis_point_value:
  assumes "0 < n" and "n < int_float_limit" and "int i < n"
    and "math_cos c (math_radians lat0) = Inr cos_lat"
    and "fmul (Fin 111320) cos_lat \<noteq> Fin 0"
  shows "phyllotaxis_point c lat0 lon0 n scale i =
           Inr (fadd lat0
                  (fquot (fmul (fmul scale (Fin (sqrt ((real i + 1 / 2) / real_of_int n))))
                            (Fin (sin (real i * golden_angle))))
                     (Fin 111320)),
                fadd lon0
                  (fquot (fmul (fmul scale (Fin (sqrt ((real i + 1 / 2) / real_of_int n))))
                            (Fin (cos_of c (real i * golden_angle))))
                     (fmul (Fin 111320) cos_lat)))"
proof -
  from assms(2,3) have i: "float_of_int (int i) = Inr (real i)"
    by (simp add: float_of_int_Inr)
  from assms(1,2) have n: "float_of_int n = Inr (real_of_int n)"
    by (simp add: float_of_int_Inr)
  from assms(1) have q: "py_div (real i + 1 / 2) (real_of_int n) = Inr ((real i + 1 / 2) / real_of_int n)"
    by (simp add: py_div_def)
  from assms(1) have "0 \<le> (real i + 1 / 2) / real_of_int n"
    by simp
  then have s: "math_sqrt ((real i + 1 / 2) / real_of_int n) =
                  Inr (sqrt ((real i + 1 / 2) / real_of_int n))"
    by (simp add: math_sqrt_def)
  have a: "math_cos c (Fin (real i * golden_angle)) = Inr (Fin (cos_of c (real i * golden_angle)))"
    "math_sin (Fin (real i * golden_angle)) = Inr (Fin (sin (real i * golden_angle)))"
    by (simp_all add: math_cos_def math_sin_def)
  have d: "fdiv y (Fin 111320) = Inr (fquot y (Fin 111320))" for y
    by (simp add: fdiv_def)
  from assms(5) have e: "fdiv x (fmul (Fin 111320) cos_lat) = Inr (fquot x (fmul (Fin 111320) cos_lat))"
    for x
    by (simp add: fdiv_def)
  show ?thesis
    unfolding phyllotaxis_point_def Let_def i n q s a d assms(4) e bnd_Inr ..
qed

lemma phyllotaxis_loop_map:
  assumes "\<forall>i\<in>set idx. phyllotaxis_point c lat0 lon0 n scale i = Inr (f i)"
  shows "phyllotaxis_loop c lat0 lon0 n scale idx pts = Inr (pts @ map f idx)"
  using assms by (induction idx arbitrary: pts) simp_all

lemma phyllotaxis_point_infinite:
  assumes "0 < n" and "n < int_float_limit" and "int i < n" and "lat0 = PInf \<or> lat0 = NInf"
  shows "phyllotaxis_point c lat0 lon0 n scale i = Inl ValueError"
proof -
  from assms(2,3) have i: "float_of_int (int i) = Inr (real i)"
    by (simp add: float_of_int_Inr)
  from assms(1,2) have n: "float_of_int n = Inr (real_of_int n)"
    by (simp add: float_of_int_Inr)
  from assms(1) have q: "py_div (real i + 1 / 2) (real_of_int n) = Inr ((real i + 1 / 2) / real_of_int n)"
    by (simp add: py_div_def)
  from assms(1) have "0 \<le> (real i + 1 / 2) / real_of_int n"
    by simp
  then have s: "math_sqrt ((real i + 1 / 2) / real_of_int n) =
                  Inr (sqrt ((real i + 1 / 2) / real_of_int n))"
    by (simp add: math_sqrt_def)
  have a: "math_cos c (Fin (real i * golden_angle)) = Inr (Fin (cos_of c (real i * golden_angle)))"
    "math_sin (Fin (real i * golden_angle)) = Inr (Fin (sin (real i * golden_angle)))"
    by (simp_all add: math_cos_def math_sin_def)
  have d: "fdiv y (Fin 111320) = Inr (fquot y (Fin 111320))" for y
    by (simp add: fdiv_def)
  from assms(4) have e: "math_cos c (math_radians lat0) = Inl ValueError"
    by (auto simp: math_cos_def math_radians_def)
  show ?thesis
    unfolding phyllotaxis_point_def Let_def i n q s a d e bnd_Inr bnd_Inl ..
qed

lemma generate_phyllotaxis_infinite:
  assumes "0 < n" and "n < int_float_limit" and "lat0 = PInf \<or> lat0 = NInf"
  shows "generate_phyllotaxis c lat0 lon0 n scale = Inl ValueError"
proof -
  from assms(1) have "[0..<nat n] = 0 # [1..<nat n]"
    by (simp add: upt_conv_Cons)
  moreover from assms(1) have "int 0 < n"
    by simp
  note phyllotaxis_point_infinite [OF assms(1,2) this assms(3), of c lon0 scale]
  ultimately show ?thesis
    by (simp add: generate_phyllotaxis_def)
qed

lemma generate_phyllotaxis_overflow:
  assumes "int_float_limit \<le> n"
  shows "generate_phyllotaxis c lat0 lon0 n scale = Inl OverflowError"
proof -
  from assms int_float_limit_pos have "0 < n"
    by simp
  then have "[0..<nat n] = 0 # [1..<nat n]"
    by (simp add: upt_conv_Cons)
  moreover have "float_of_int (int 0) = Inr 0"
    using int_float_limit_pos by (simp add: float_of_int_def)
  then have "phyllotaxis_point c lat0 lon0 n scale 0 = Inl OverflowError"
    unfolding phyllotaxis_point_def Let_def float_of_int_overflow [OF assms]
    by simp
  ultimately show ?thesis
    by (simp add: generate_phyllotaxis_def)
qed



lemma example_cosine_values:
  "cos_of example_cosine 0 = 1" "cos_of example_cosine (pi / 2) = 6123 / 10 ^ 20"
  by (simp_all add: example_cosine.rep_eq)


end
